theory Spec2Isabelle
  imports Main "HOL-Library.AList"
begin

section \<open>JSON values and JavaScript property access\<close>

text \<open>
  Both clients exchange JSON. A decoded value is a \<open>json\<close>; numbers are kept as
  integers. A property read \<open>v.k\<close> yields \<open>undefined\<close>, modelled as \<open>None\<close>, when the
  property is absent or when \<open>v\<close> is not an object. \<open>JSON.parse\<close> keeps the last of
  several equal keys, hence the reversal before the lookup.
\<close>

datatype json =
    JNull
  | JBool bool
  | JNum int
  | JStr string
  | JArr "json list"
  | JObj "(string \<times> json) list"

fun jfield :: "json \<Rightarrow> string \<Rightarrow> json option" where
  "jfield (JObj kvs) k = map_of (rev kvs) k"
| "jfield _ k = None"

text \<open>JavaScript truthiness of a value that may be \<open>undefined\<close>.\<close>

fun truthy :: "json option \<Rightarrow> bool" where
  "truthy None = False"
| "truthy (Some JNull) = False"
| "truthy (Some (JBool b)) = b"
| "truthy (Some (JNum n)) = (n \<noteq> 0)"
| "truthy (Some (JStr s)) = (s \<noteq> [])"
| "truthy (Some (JArr xs)) = True"
| "truthy (Some (JObj kvs)) = True"

text \<open>\<open>a || b\<close> where \<open>b\<close> is a defined value.\<close>

definition js_or :: "json option \<Rightarrow> json \<Rightarrow> json" where
  "js_or a b = (if truthy a then the a else b)"

text \<open>\<open>typeof v === 'string'\<close> and \<open>typeof v === 'boolean'\<close> on a possibly undefined value.\<close>

fun is_string :: "json option \<Rightarrow> bool" where
  "is_string (Some (JStr s)) = True"
| "is_string _ = False"

fun is_boolean :: "json option \<Rightarrow> bool" where
  "is_boolean (Some (JBool b)) = True"
| "is_boolean _ = False"

text \<open>\<open>typeof v === 'object' && v !== null\<close>: objects and arrays.\<close>

fun is_object :: "json \<Rightarrow> bool" where
  "is_object (JObj kvs) = True"
| "is_object (JArr xs) = True"
| "is_object _ = False"

text \<open>Decimal rendering of a number inside a template string.\<close>

function string_of_nat :: "nat \<Rightarrow> string" where
  "string_of_nat n =
     (if n < 10 then [''0123456789'' ! n]
      else string_of_nat (n div 10) @ [''0123456789'' ! (n mod 10)])"
  by pat_completeness auto
termination
  by (relation "measure (\<lambda>n. n)") auto

declare string_of_nat.simps [simp del]


section \<open>Request client (class StrathonAPIClient, api-client.ts)\<close>

subsection \<open>Configuration, errors, metric samples\<close>

text \<open>
  Counts and millisecond durations are natural numbers. The per-call options are the
  fields of \<open>RequestOptions\<close> that \<open>request\<close> reads; an absent option is \<open>None\<close>.
\<close>

record APIConfig =
  baseURL :: string
  timeout :: nat
  retryAttempts :: nat
  retryDelay :: nat
  enableMetrics :: bool
  enableTracing :: bool

definition defaultConfig :: "string \<Rightarrow> APIConfig" where
  "defaultConfig apiUrl =
     \<lparr> baseURL = apiUrl, timeout = 10000, retryAttempts = 3, retryDelay = 1000,
       enableMetrics = True, enableTracing = True \<rparr>"

record RequestOptions =
  opt_timeout :: "nat option"
  opt_retryAttempts :: "nat option"
  opt_enableMetrics :: "bool option"
  opt_enableTracing :: "bool option"
  opt_method :: "string option"
  opt_headers :: "string \<rightharpoonup> string"
  opt_body :: "string option"

text \<open>
  The three error classes of the client, and \<open>JsError name message\<close> for every other
  \<open>Error\<close> a \<open>catch\<close> can see (\<open>TypeError\<close>, \<open>SyntaxError\<close>, the \<open>AbortError\<close> of an
  aborted fetch). \<open>APIError message status code requestId details\<close>.
\<close>

datatype js_error =
    APIError json nat json string "json option"
  | NetworkError string "js_error option"
  | TimeoutError string nat
  | JsError string string

fun error_name :: "js_error \<Rightarrow> string" where
  "error_name (APIError m s c r d) = ''APIError''"
| "error_name (NetworkError m e) = ''NetworkError''"
| "error_name (TimeoutError m t) = ''TimeoutError''"
| "error_name (JsError n m) = n"

fun is_APIError :: "js_error \<Rightarrow> bool" where
  "is_APIError (APIError m s c r d) = True"
| "is_APIError _ = False"


fun error_status :: "js_error \<Rightarrow> nat option" where
  "error_status (APIError m s c r d) = Some s"
| "error_status _ = None"

record RequestMetrics =
  url :: string
  httpMethod :: string
  startTime :: nat
  endTime :: nat
  duration :: nat
  status :: nat
  success :: bool
  retryCount :: nat
  requestId :: string

text \<open>\<open>collectMetrics\<close>: push, then keep the last 1000 samples.\<close>

definition collectMetrics :: "RequestMetrics list \<Rightarrow> RequestMetrics \<Rightarrow> RequestMetrics list" where
  "collectMetrics ms m =
     (let ms' = ms @ [m]
      in if length ms' > 1000 then drop (length ms' - 1000) ms' else ms')"


subsection \<open>The transport\<close>

text \<open>
  \<open>fetch\<close> is the environment. For each attempt the environment fixes how long the
  transport takes and how it settles: with a response, or by rejecting with a network
  failure (a \<open>TypeError\<close>). A response carries the fields the client reads. Its body
  is read by a second \<open>await\<close>, of \<open>response.json()\<close>, which takes \<open>resp_readTime\<close>;
  \<open>resp_body = None\<close> is a body that is not JSON.
\<close>

record response =
  resp_status :: nat
  resp_ok :: bool
  resp_statusText :: string
  resp_body :: "json option"
  resp_readTime :: nat

text \<open>
  How \<open>response.json()\<close> settles: with the decoded value, by rejecting with a
  \<open>SyntaxError\<close>, or by rejecting with an \<open>AbortError\<close> when the signal of the request
  is aborted while the body is being read.
\<close>

datatype body_read = Parsed json | Malformed | Interrupted

datatype fetch_outcome = Responds response | Rejects string

record fetch_call =
  call_attempt :: nat
  call_at :: nat
  call_url :: string
  call_method :: string
  call_headers :: "string \<rightharpoonup> string"

text \<open>
  \<open>parseErrorResponse\<close>: the decoded body, or a substitute object when
  \<open>response.json()\<close> rejects. Its \<open>catch\<close> has no binding and takes every rejection, the
  \<open>AbortError\<close> of an interrupted read as well as the \<open>SyntaxError\<close>.
\<close>

definition parseErrorResponse :: "response \<Rightarrow> body_read \<Rightarrow> json" where
  "parseErrorResponse resp b =
     (case b of
        Parsed j \<Rightarrow> j
      | _ \<Rightarrow>
          JObj [(''message'',
                 JStr (if resp_statusText resp \<noteq> [] then resp_statusText resp
                       else ''Unknown error'')),
                (''code'', JStr ''PARSE_ERROR'')])"

definition isValidAPIResponse :: "json \<Rightarrow> bool" where
  "isValidAPIResponse data \<longleftrightarrow>
     is_object data \<and> is_boolean (jfield data ''success'') \<and>
     is_string (jfield data ''timestamp'') \<and> is_string (jfield data ''requestId'')"

text \<open>
  The error thrown for a response that is not ok (lines 175 to 184). Reading
  \<open>errorData.message\<close> on \<open>null\<close> throws a \<open>TypeError\<close> before the \<open>APIError\<close> is built.
\<close>

definition http_error :: "string \<Rightarrow> response \<Rightarrow> body_read \<Rightarrow> js_error" where
  "http_error rid resp b =
     (let errorData = parseErrorResponse resp b
      in if errorData = JNull
         then JsError ''TypeError'' ''Cannot read properties of null''
         else APIError
                (js_or (jfield errorData ''message'')
                       (JStr (''HTTP '' @ string_of_nat (resp_status resp))))
                (resp_status resp)
                (js_or (jfield errorData ''code'') (JStr ''HTTP_ERROR''))
                rid
                (jfield errorData ''details''))"


subsection \<open>One logical call\<close>

text \<open>
  Everything \<open>request\<close> fixes before its retry loop (lines 104 to 143) is the context of
  the loop: the url, the one \<open>Headers\<close> object, the one request id, the start time, and
  the instant \<open>cx_abortAt\<close> from which the signal of the one \<open>AbortController\<close> is
  aborted. The loop's variables (\<open>retryCountVar\<close> is the variable \<open>retryCount\<close>), the clock,
  the metric buffer and the trace, a log of the transport calls and of the backoff
  sleeps in the order in which they happen, form the \<open>run\<close>.
\<close>

record request_ctx =
  cx_url :: string
  cx_method :: string
  cx_headers :: "string \<rightharpoonup> string"
  cx_requestId :: string
  cx_startTime :: nat
  cx_timeout :: nat
  cx_retryAttempts :: nat
  cx_retryDelay :: nat
  cx_enableMetrics :: bool
  cx_abortAt :: nat
  cx_transport :: "nat \<Rightarrow> nat \<times> fetch_outcome"

datatype settle = SignalAborted | NetworkFailure string | Response response

datatype event = Attempt fetch_call nat settle | Slept nat

record run =
  clock :: nat
  samples :: "RequestMetrics list"
  lastError :: "js_error option"
  retryCountVar :: nat
  trace :: "event list"

definition log_event :: "event \<Rightarrow> run \<Rightarrow> run" where
  "log_event e r = r\<lparr> trace := trace r @ [e] \<rparr>"

text \<open>
  Both waits of the client are \<open>setTimeout\<close> timers: the timeout of the call and the
  \<open>sleep\<close> between attempts. A timer takes a delay from 1 to \<open>2^31 - 1\<close> milliseconds; as
  the timers of Node count it, a delay outside this range is set to 1. \<open>sleep ms\<close> logs
  the delay it is called with and lets the clock advance by what the timer waits.
\<close>

definition setTimeout_delay :: "nat \<Rightarrow> nat" where
  "setTimeout_delay ms = (if ms < 1 \<or> 2147483647 < ms then 1 else ms)"

definition sleep :: "nat \<Rightarrow> run \<Rightarrow> run" where
  "sleep ms r = log_event (Slept ms) (r\<lparr> clock := clock r + setTimeout_delay ms \<rparr>)"

text \<open>What \<open>fetch\<close> is called with at an attempt, and the sample collected for a response.\<close>

definition fetch_call_of :: "request_ctx \<Rightarrow> nat \<Rightarrow> run \<Rightarrow> fetch_call" where
  "fetch_call_of cx attempt r =
     \<lparr> call_attempt = attempt, call_at = clock r, call_url = cx_url cx,
       call_method = cx_method cx, call_headers = cx_headers cx \<rparr>"

definition new_sample :: "request_ctx \<Rightarrow> nat \<Rightarrow> nat \<Rightarrow> response \<Rightarrow> RequestMetrics" where
  "new_sample cx retries endT resp =
     \<lparr> url = cx_url cx, httpMethod = cx_method cx, startTime = cx_startTime cx, endTime = endT,
       duration = endT - cx_startTime cx, status = resp_status resp, success = resp_ok resp,
       retryCount = retries, requestId = cx_requestId cx \<rparr>"

text \<open>
  \<open>await response.json()\<close>, begun at instant \<open>t\<close>, when \<open>fetch\<close> has returned the
  response: how it settles and when. If the signal is aborted strictly before the read
  is through, the read rejects at the abort.
\<close>

definition read_body :: "request_ctx \<Rightarrow> nat \<Rightarrow> response \<Rightarrow> body_read \<times> nat" where
  "read_body cx t resp =
     (if cx_abortAt cx < t + resp_readTime resp then (Interrupted, max t (cx_abortAt cx))
      else ((case resp_body resp of Some j \<Rightarrow> Parsed j | None \<Rightarrow> Malformed),
            t + resp_readTime resp))"

text \<open>
  From the response and its body to the value returned or the error thrown (lines 175
  to 198). For a response that is not ok the body is read by \<open>parseErrorResponse\<close>; for an
  ok response a rejected read is thrown as it is, and a decoded body of the wrong shape is
  an error.
\<close>

definition decode :: "request_ctx \<Rightarrow> response \<Rightarrow> body_read \<Rightarrow> js_error + json" where
  "decode cx resp b =
     (if \<not> resp_ok resp then Inl (http_error (cx_requestId cx) resp b)
      else
        (case b of
           Interrupted \<Rightarrow> Inl (JsError ''AbortError'' ''The operation was aborted'')
         | Malformed \<Rightarrow> Inl (JsError ''SyntaxError'' ''Unexpected token'')
         | Parsed data \<Rightarrow>
             if \<not> isValidAPIResponse data
             then Inl (APIError (JStr ''Invalid API response format'') 500
                         (JStr ''INVALID_RESPONSE'') (cx_requestId cx) None)
             else Inr data))"

text \<open>
  The \<open>try\<close> block of one iteration (lines 150 to 198). The transport is called at
  \<open>clock r\<close> and would settle \<open>latency\<close> later. If the signal is aborted strictly before
  that instant, \<open>fetch\<close> rejects with an \<open>AbortError\<close> at the abort (at once, when the
  signal was aborted already); a response that arrives at the very instant of the abort
  is delivered. The sample is collected when the response is there, before its body is
  read, and the clock ends where the read of the body ends. The result is the value
  returned (\<open>Inr\<close>) or the error thrown (\<open>Inl\<close>). The trace gets one event: the call, the
  instant at which \<open>fetch\<close> settled, and how.
\<close>

definition try_block :: "request_ctx \<Rightarrow> nat \<Rightarrow> run \<Rightarrow> (js_error + json) \<times> run" where
  "try_block cx attempt r =
     (let (latency, outcome) = cx_transport cx attempt;
          call = fetch_call_of cx attempt r
      in if cx_abortAt cx < clock r + latency
         then (let t = max (clock r) (cx_abortAt cx)
               in (Inl (JsError ''AbortError'' ''The operation was aborted''),
                   log_event (Attempt call t SignalAborted) (r\<lparr> clock := t \<rparr>)))
         else
           (let endT = clock r + latency
            in case outcome of
                 Rejects msg \<Rightarrow>
                   (Inl (JsError ''TypeError'' msg),
                    log_event (Attempt call endT (NetworkFailure msg)) (r\<lparr> clock := endT \<rparr>))
               | Responds resp \<Rightarrow>
                   (let r1 = log_event (Attempt call endT (Response resp)) (r\<lparr> clock := endT \<rparr>);
                        r2 = (if cx_enableMetrics cx
                              then r1\<lparr> samples := collectMetrics (samples r1)
                                     (new_sample cx (retryCountVar r) endT resp) \<rparr>
                              else r1);
                        (b, t) = read_body cx endT resp
                    in (decode cx resp b, r2\<lparr> clock := t \<rparr>))))"

text \<open>
  The \<open>catch\<close> block (lines 200 to 222) ends the iteration in one of three ways:
  \<open>break\<close>, a \<open>TimeoutError\<close> thrown out of the loop, or the next iteration, after the
  backoff sleep when another attempt is left.
\<close>

datatype step = Break run | Throw js_error run | Continue run

definition timeout_error :: "request_ctx \<Rightarrow> js_error" where
  "timeout_error cx =
     TimeoutError (''Request timeout after '' @ string_of_nat (cx_timeout cx) @ ''ms'') (cx_timeout cx)"

definition catch_block :: "request_ctx \<Rightarrow> nat \<Rightarrow> js_error \<Rightarrow> run \<Rightarrow> step" where
  "catch_block cx attempt e r =
     (let r1 = r\<lparr> lastError := Some e, retryCountVar := attempt \<rparr>
      in if is_APIError e \<and> error_status e \<in> {Some 401, Some 403, Some 404} then Break r1
         else if error_name e = ''AbortError''
         then Throw (timeout_error cx) r1
         else if attempt < cx_retryAttempts cx
         then Continue (sleep (cx_retryDelay cx * 2 ^ attempt) r1)
         else Continue r1)"

text \<open>After the loop (lines 225 to 233).\<close>

definition after_loop :: "request_ctx \<Rightarrow> run \<Rightarrow> (js_error + json) \<times> run" where
  "after_loop cx r =
     (case lastError r of
        Some (APIError m s c rid d) \<Rightarrow> (Inl (APIError m s c rid d), r)
      | e \<Rightarrow> (Inl (NetworkError
                     (''Network request failed after '' @
                        string_of_nat (cx_retryAttempts cx + 1) @ '' attempts'') e), r))"

text \<open>The retry loop \<open>for (attempt = 0; attempt <= retryAttempts; attempt++)\<close>.\<close>

function attempt_loop :: "request_ctx \<Rightarrow> nat \<Rightarrow> run \<Rightarrow> (js_error + json) \<times> run" where
  "attempt_loop cx attempt r =
     (if attempt \<le> cx_retryAttempts cx then
        (case try_block cx attempt r of
           (Inr data, r') \<Rightarrow> (Inr data, r')
         | (Inl e, r') \<Rightarrow>
             (case catch_block cx attempt e r' of
                Break r'' \<Rightarrow> after_loop cx r''
              | Throw e' r'' \<Rightarrow> (Inl e', r'')
              | Continue r'' \<Rightarrow> attempt_loop cx (Suc attempt) r''))
      else after_loop cx r)"
  by pat_completeness auto
termination
  by (relation "measure (\<lambda>(cx, attempt, r). Suc (cx_retryAttempts cx) - attempt)") auto

declare attempt_loop.simps [simp del]


subsection \<open>The client and \<open>request\<close>\<close>

text \<open>
  The client owns the metric buffer and the registry \<open>abortControllers\<close>, a \<open>Map\<close> from
  request id to controller, kept as an association list in insertion order; controllers
  are numbered in the order of their creation.
\<close>

record api_client =
  config :: APIConfig
  metrics :: "RequestMetrics list"
  abortControllers :: "(string \<times> nat) list"
  controllersMade :: nat

text \<open>
  \<open>cancelAllRequests\<close> calls \<open>abort()\<close> on every registered controller and clears the
  registry. The first component lists the controllers it aborted.
\<close>

definition cancelAllRequests :: "api_client \<Rightarrow> nat list \<times> api_client" where
  "cancelAllRequests c = (map snd (abortControllers c), c\<lparr> abortControllers := [] \<rparr>)"

text \<open>
  What one call reads from its surroundings: both clocks at entry, the digits that
  \<open>Math.random().toString(36)\<close> shows after \<open>0.\<close> at its successive draws, the two
  places a token can come from, the transport's behaviour at each attempt, and the instant
  at which somebody calls \<open>cancelAllRequests\<close>, if anybody does.
\<close>

record api_env =
  env_now :: nat
  env_dateNow :: nat
  env_random :: "nat \<Rightarrow> string"
  env_localToken :: "string option"
  env_envToken :: "string option"
  env_transport :: "nat \<Rightarrow> nat \<times> fetch_outcome"
  env_cancelAt :: "nat option"

definition generateRequestId :: "nat \<Rightarrow> string \<Rightarrow> string" where
  "generateRequestId dateNow digits = ''req_'' @ string_of_nat dateNow @ ''_'' @ take 9 digits"

definition generateTraceId :: "nat \<Rightarrow> string \<Rightarrow> string" where
  "generateTraceId dateNow digits = ''trace_'' @ string_of_nat dateNow @ ''_'' @ take 16 digits"

text \<open>\<open>a || b || null\<close> on strings: the first that is present and not empty.\<close>

definition getAuthToken :: "api_env \<Rightarrow> string option" where
  "getAuthToken env =
     (case env_localToken env of
        Some (x # xs) \<Rightarrow> Some (x # xs)
      | _ \<Rightarrow> (case env_envToken env of Some (y # ys) \<Rightarrow> Some (y # ys) | _ \<Rightarrow> None))"

text \<open>
  The header names are those a \<open>Headers\<close> object stores, in lower case. The headers are
  built once, before the loop, and the same object is passed to every \<open>fetch\<close>.
\<close>

definition prepare_headers ::
  "api_env \<Rightarrow> string \<Rightarrow> bool \<Rightarrow> (string \<rightharpoonup> string) \<Rightarrow> (string \<rightharpoonup> string)" where
  "prepare_headers env rid tracing h0 =
     (let h1 = h0(''content-type'' \<mapsto> ''application/json'');
          h2 = h1(''x-request-id'' \<mapsto> rid);
          h3 = (case getAuthToken env of
                  Some token \<Rightarrow> h2(''authorization'' \<mapsto> ''Bearer '' @ token)
                | None \<Rightarrow> h2)
      in if tracing
         then h3(''x-trace-id'' \<mapsto> generateTraceId (env_dateNow env) (env_random env 1),
                 ''x-client-version'' \<mapsto> ''1.0.0'',
                 ''x-client-name'' \<mapsto> ''strathon-pulse'')
         else h3)"

text \<open>
  The signal is aborted by the one timer set at entry, with the delay \<open>timeout\<close>, or
  earlier by a \<open>cancelAllRequests\<close> that finds the controller registered.
\<close>

definition abort_instant :: "nat \<Rightarrow> nat \<Rightarrow> nat option \<Rightarrow> nat" where
  "abort_instant startT timeoutMs cancelAt =
     (case cancelAt of
        None \<Rightarrow> startT + setTimeout_delay timeoutMs
      | Some t \<Rightarrow> if startT \<le> t then min t (startT + setTimeout_delay timeoutMs)
                  else startT + setTimeout_delay timeoutMs)"

text \<open>The options of the call win over the configuration of the client.\<close>

definition effective_timeout :: "api_client \<Rightarrow> RequestOptions \<Rightarrow> nat" where
  "effective_timeout c options =
     (case opt_timeout options of Some t \<Rightarrow> t | None \<Rightarrow> timeout (config c))"

definition effective_retryAttempts :: "api_client \<Rightarrow> RequestOptions \<Rightarrow> nat" where
  "effective_retryAttempts c options =
     (case opt_retryAttempts options of Some n \<Rightarrow> n | None \<Rightarrow> retryAttempts (config c))"

definition effective_enableMetrics :: "api_client \<Rightarrow> RequestOptions \<Rightarrow> bool" where
  "effective_enableMetrics c options =
     (case opt_enableMetrics options of Some b \<Rightarrow> b | None \<Rightarrow> enableMetrics (config c))"

definition effective_enableTracing :: "api_client \<Rightarrow> RequestOptions \<Rightarrow> bool" where
  "effective_enableTracing c options =
     (case opt_enableTracing options of Some b \<Rightarrow> b | None \<Rightarrow> enableTracing (config c))"

definition request_ctx_of :: "api_client \<Rightarrow> api_env \<Rightarrow> string \<Rightarrow> RequestOptions \<Rightarrow> request_ctx" where
  "request_ctx_of c env endpoint options =
     (let rid = generateRequestId (env_dateNow env) (env_random env 0)
      in \<lparr> cx_url = baseURL (config c) @ endpoint,
           cx_method = (case opt_method options of Some (x # xs) \<Rightarrow> x # xs | _ \<Rightarrow> ''GET''),
           cx_headers = prepare_headers env rid (effective_enableTracing c options)
                          (opt_headers options),
           cx_requestId = rid,
           cx_startTime = env_now env,
           cx_timeout = effective_timeout c options,
           cx_retryAttempts = effective_retryAttempts c options,
           cx_retryDelay = retryDelay (config c),
           cx_enableMetrics = effective_enableMetrics c options,
           cx_abortAt = abort_instant (env_now env) (effective_timeout c options) (env_cancelAt env),
           cx_transport = env_transport env \<rparr>)"

definition initial_run :: "api_client \<Rightarrow> api_env \<Rightarrow> run" where
  "initial_run c env =
     \<lparr> clock = env_now env, samples = metrics c, lastError = None, retryCountVar = 0,
       trace = [] \<rparr>"

text \<open>
  \<open>request\<close>: register the controller, run the loop, and in the \<open>finally\<close> block take the
  request id out of the registry. A \<open>cancelAllRequests\<close> that fell into the call has
  cleared the registry before. The result comes with the client and the finished run.
\<close>

definition register :: "request_ctx \<Rightarrow> api_client \<Rightarrow> api_client" where
  "register cx c =
     c\<lparr> abortControllers := AList.update (cx_requestId cx) (controllersMade c) (abortControllers c),
        controllersMade := Suc (controllersMade c) \<rparr>"

definition request ::
  "api_client \<Rightarrow> api_env \<Rightarrow> string \<Rightarrow> RequestOptions \<Rightarrow> (js_error + json) \<times> api_client \<times> run" where
  "request c env endpoint options =
     (let cx = request_ctx_of c env endpoint options;
          c1 = register cx c;
          (res, r) = attempt_loop cx 0 (initial_run c env);
          c2 = (case env_cancelAt env of
                  Some t \<Rightarrow> if env_now env \<le> t \<and> t \<le> clock r then snd (cancelAllRequests c1) else c1
                | None \<Rightarrow> c1)
      in (res,
          c2\<lparr> metrics := samples r,
               abortControllers := AList.delete (cx_requestId cx) (abortControllers c2) \<rparr>,
          r))"

definition result_of :: "api_client \<Rightarrow> api_env \<Rightarrow> string \<Rightarrow> RequestOptions \<Rightarrow> js_error + json" where
  "result_of c env endpoint options = fst (request c env endpoint options)"

definition client_after :: "api_client \<Rightarrow> api_env \<Rightarrow> string \<Rightarrow> RequestOptions \<Rightarrow> api_client" where
  "client_after c env endpoint options = fst (snd (request c env endpoint options))"

definition run_of :: "api_client \<Rightarrow> api_env \<Rightarrow> string \<Rightarrow> RequestOptions \<Rightarrow> run" where
  "run_of c env endpoint options = snd (snd (request c env endpoint options))"

text \<open>
  Projections of a trace: the transport calls, the backoff delays, the responses
  received, the network failures, the instants at which an attempt was aborted, and the
  metric sample that
  each response gives rise to. At attempt \<open>n\<close> the variable \<open>retryCount\<close> holds the
  number of the attempt that failed last, \<open>n - 1\<close>, and 0 at the first attempt.
\<close>

fun calls :: "event list \<Rightarrow> fetch_call list" where
  "calls [] = []"
| "calls (Attempt c t s # es) = c # calls es"
| "calls (e # es) = calls es"

fun sleeps :: "event list \<Rightarrow> nat list" where
  "sleeps [] = []"
| "sleeps (Slept ms # es) = ms # sleeps es"
| "sleeps (e # es) = sleeps es"

fun responses :: "event list \<Rightarrow> response list" where
  "responses [] = []"
| "responses (Attempt c t (Response resp) # es) = resp # responses es"
| "responses (e # es) = responses es"


fun aborts :: "event list \<Rightarrow> nat list" where
  "aborts [] = []"
| "aborts (Attempt c t SignalAborted # es) = t # aborts es"
| "aborts (e # es) = aborts es"


text \<open>
  \<open>pace\<close> keeps the attempt number of each transport call (\<open>Inl\<close>) and each delay
  (\<open>Inr\<close>). \<open>backoff d a m\<close> is the pace of the attempts \<open>a\<close> to \<open>m\<close> when attempt \<open>n\<close>,
  having failed, is followed by a delay of \<open>d * 2 ^ n\<close>.
\<close>

fun pace :: "event list \<Rightarrow> (nat + nat) list" where
  "pace [] = []"
| "pace (Attempt c t s # es) = Inl (call_attempt c) # pace es"
| "pace (Slept ms # es) = Inr ms # pace es"

definition backoff :: "nat \<Rightarrow> nat \<Rightarrow> nat \<Rightarrow> (nat + nat) list" where
  "backoff d a m = concat (map (\<lambda>n. [Inl n, Inr (d * 2 ^ n)]) [a..<m]) @ [Inl m]"

text \<open>
  The report of a finished call: the result, the status of each sample in the buffer, the
  status of each response received, the pace of the run, the instants of the transport
  calls, the instants of the aborts, and the clock at the end.
\<close>

definition report ::
  "(js_error + json) \<times> api_client \<times> run \<Rightarrow>
   (js_error + json) \<times> nat list \<times> nat list \<times> (nat + nat) list \<times> nat list \<times> nat list \<times> nat" where
  "report x =
     (case x of
        (res, c, r) \<Rightarrow>
          (res, map status (metrics c), map resp_status (responses (trace r)), pace (trace r),
           map call_at (calls (trace r)), aborts (trace r), clock r))"

text \<open>
  The instant at which an iteration leaves its \<open>try\<close> block, when \<open>fetch\<close> settled
  at \<open>t\<close>: after the read of the body when there is a response, and at \<open>t\<close> otherwise;
  \<open>leaves\<close> lists these instants, one for each transport call of a trace.
  A trace is on time from \<open>t0\<close> when each transport call is made at the instant the
  iteration before it was left, plus what the timer of the sleep between them waits;
  \<open>clock_after\<close> is where the clock then stands at the end.
\<close>

fun left_at :: "request_ctx \<Rightarrow> nat \<Rightarrow> settle \<Rightarrow> nat" where
  "left_at cx t (Response resp) = snd (read_body cx t resp)"
| "left_at cx t s = t"

fun leaves :: "request_ctx \<Rightarrow> event list \<Rightarrow> nat list" where
  "leaves cx [] = []"
| "leaves cx (Attempt c t s # es) = left_at cx t s # leaves cx es"
| "leaves cx (Slept ms # es) = leaves cx es"

fun on_time :: "request_ctx \<Rightarrow> nat \<Rightarrow> event list \<Rightarrow> bool" where
  "on_time cx t0 [] = True"
| "on_time cx t0 (Attempt c t s # es) = (call_at c = t0 \<and> on_time cx (left_at cx t s) es)"
| "on_time cx t0 (Slept ms # es) = on_time cx (t0 + setTimeout_delay ms) es"

fun clock_after :: "request_ctx \<Rightarrow> nat \<Rightarrow> event list \<Rightarrow> nat" where
  "clock_after cx t0 [] = t0"
| "clock_after cx t0 (Attempt c t s # es) = clock_after cx (left_at cx t s) es"
| "clock_after cx t0 (Slept ms # es) = clock_after cx (t0 + setTimeout_delay ms) es"

text \<open>
  A call has missed the abort when the signal is aborted strictly before the transport
  would settle it, or strictly before the body of its ok response would be read.
\<close>

definition missed :: "request_ctx \<Rightarrow> fetch_call \<Rightarrow> bool" where
  "missed cx c \<longleftrightarrow>
     (case cx_transport cx (call_attempt c) of
        (latency, Responds resp) \<Rightarrow>
          cx_abortAt cx < call_at c + latency \<or>
          resp_ok resp \<and> cx_abortAt cx < call_at c + latency + resp_readTime resp
      | (latency, Rejects msg) \<Rightarrow> cx_abortAt cx < call_at c + latency)"

text \<open>
  An instant falls into the reading of the body of an error response when the response,
  not ok, has arrived and the read of its body has not ended.
\<close>

fun reading_error_body :: "request_ctx \<Rightarrow> nat \<Rightarrow> event \<Rightarrow> bool" where
  "reading_error_body cx t (Attempt c te (Response resp)) \<longleftrightarrow>
     \<not> resp_ok resp \<and> te \<le> t \<and> t < snd (read_body cx te resp)"
| "reading_error_body cx t _ \<longleftrightarrow> False"

text \<open>
  An event is a denial when it is a response that is not ok, has status 401, 403 or 404,
  and whose body is not the JSON value \<open>null\<close>.
\<close>

fun denied :: "event \<Rightarrow> bool" where
  "denied (Attempt c t (Response resp)) \<longleftrightarrow>
     \<not> resp_ok resp \<and> resp_status resp \<in> {401, 403, 404} \<and> resp_body resp \<noteq> Some JNull"
| "denied _ \<longleftrightarrow> False"

fun response_of :: "event \<Rightarrow> response option" where
  "response_of (Attempt c t (Response resp)) = Some resp"
| "response_of _ = None"

fun settled_at :: "event \<Rightarrow> nat option" where
  "settled_at (Attempt c t s) = Some t"
| "settled_at _ = None"


section \<open>Event-stream client (class StrathonWebSocketClient)\<close>

subsection \<open>Configuration, state and metrics\<close>

datatype ConnectionState = Connecting | Connected | Disconnected | Reconnecting | Failed

record WebSocketConfig =
  cfg_url :: string
  cfg_protocols :: "string list"
  cfg_reconnectAttempts :: nat
  cfg_reconnectDelay :: nat
  cfg_heartbeatInterval :: nat
  cfg_messageTimeout :: nat
  cfg_enableMetrics :: bool

definition defaultWebSocketConfig :: "string \<Rightarrow> WebSocketConfig" where
  "defaultWebSocketConfig wsUrl =
     \<lparr> cfg_url = wsUrl, cfg_protocols = [''strathon-pulse-v1''], cfg_reconnectAttempts = 10,
       cfg_reconnectDelay = 1000, cfg_heartbeatInterval = 30000, cfg_messageTimeout = 5000,
       cfg_enableMetrics = True \<rparr>"

record WebSocketMetrics =
  connectionTime :: int
  messagesReceived :: nat
  messagesSent :: nat
  reconnectCount :: nat
  averageLatency :: int
  lastMessageTime :: nat
  uptime :: int

text \<open>Which of the optional user callbacks are set.\<close>

record WebSocketEventHandlers =
  onMessage :: bool
  onConnect :: bool
  onDisconnect :: bool
  onError :: bool
  onReconnect :: bool

subsection \<open>What the client does to its surroundings\<close>

text \<open>
  Sockets, timers and promises are numbered in the order of their creation. A timer is in
  \<open>timers\<close> while it is pending. A promise of \<open>connect\<close> made by the reconnect timer
  carries the \<open>catch\<close> callback of \<open>attemptReconnect\<close>. Console output, calls on the
  query cache, calls of the user callbacks and the frames handed to a socket are logged
  in order.
\<close>

datatype ready_state = CONNECTING | OPEN | CLOSING | CLOSED

datatype timer_kind = ConnectionTimeout nat | ReconnectTimeout | HeartbeatInterval

record timer =
  timer_id :: nat
  timer_what :: timer_kind
  timer_delay :: nat

datatype console_entry = ConsoleLog string | ConsoleWarn string json | ConsoleError string

datatype cache_action = InvalidateQueries nat "json list" | SetQueryData nat "json list" json

datatype callback =
    CalledOnMessage json
  | CalledOnConnect
  | CalledOnDisconnect string
  | CalledOnError string
  | CalledOnReconnect nat

datatype promise_state = Pending | Resolved | Rejected string

record promise =
  settled :: promise_state
  caught_by_reconnect :: bool

record socket =
  sock_params :: "(string \<times> string) list"
  sock_protocols :: "string list"
  sock_promise :: nat

text \<open>
  The fields of the class come first; the rest is the surroundings: the wall clock
  \<open>now\<close>, the number of \<open>Math.random()\<close> draws made, and the logs.
\<close>

record ws_client =
  ws :: "nat option"
  ws_config :: WebSocketConfig
  state :: ConnectionState
  reconnectAttempts :: nat
  reconnectTimer :: "nat option"
  heartbeatTimer :: "nat option"
  messageQueue :: "json list"
  ws_metrics :: WebSocketMetrics
  eventHandlers :: WebSocketEventHandlers
  queryClient :: "nat option"
  connectionStartTime :: nat
  latencyMeasurements :: "int option list"
  now :: nat
  draws :: nat
  sockets :: "socket list"
  readyState :: "nat \<Rightarrow> ready_state"
  timers :: "timer list"
  timersMade :: nat
  promises :: "promise list"
  console :: "console_entry list"
  cache :: "cache_action list"
  callbacks :: "callback list"
  frames :: "(nat \<times> json) list"

text \<open>
  What the client reads and cannot change: the random digits, the rendering and the
  parsing of dates (\<open>None\<close> is an invalid date), the token, and whether the constructor
  of the n-th socket throws.
\<close>

record ws_env =
  random_digits :: "nat \<Rightarrow> string"
  toISOString :: "nat \<Rightarrow> string"
  parseDate :: "string \<Rightarrow> int option"
  authToken :: "string option"
  constructor_throws :: "nat \<Rightarrow> bool"

definition new_client :: "WebSocketConfig \<Rightarrow> ws_client" where
  "new_client cfg =
     \<lparr> ws = None, ws_config = cfg, state = Disconnected, reconnectAttempts = 0,
       reconnectTimer = None, heartbeatTimer = None, messageQueue = [],
       ws_metrics = \<lparr> connectionTime = 0, messagesReceived = 0, messagesSent = 0,
                      reconnectCount = 0, averageLatency = 0, lastMessageTime = 0, uptime = 0 \<rparr>,
       eventHandlers = \<lparr> onMessage = False, onConnect = False, onDisconnect = False,
                         onError = False, onReconnect = False \<rparr>,
       queryClient = None, connectionStartTime = 0, latencyMeasurements = [],
       now = 0, draws = 0, sockets = [], readyState = (\<lambda>k. CONNECTING), timers = [],
       timersMade = 0, promises = [], console = [], cache = [], callbacks = [], frames = [] \<rparr>"

definition console_log :: "string \<Rightarrow> ws_client \<Rightarrow> ws_client" where
  "console_log s w = w\<lparr> console := console w @ [ConsoleLog s] \<rparr>"

definition console_warn :: "string \<Rightarrow> json \<Rightarrow> ws_client \<Rightarrow> ws_client" where
  "console_warn s j w = w\<lparr> console := console w @ [ConsoleWarn s j] \<rparr>"

definition console_error :: "string \<Rightarrow> ws_client \<Rightarrow> ws_client" where
  "console_error s w = w\<lparr> console := console w @ [ConsoleError s] \<rparr>"

text \<open>\<open>this.eventHandlers.h?.(args)\<close>: the call happens when the handler is set.\<close>

definition call_handler :: "bool \<Rightarrow> callback \<Rightarrow> ws_client \<Rightarrow> ws_client" where
  "call_handler present cb w = (if present then w\<lparr> callbacks := callbacks w @ [cb] \<rparr> else w)"

definition setTimer :: "timer_kind \<Rightarrow> nat \<Rightarrow> ws_client \<Rightarrow> nat \<times> ws_client" where
  "setTimer what delay w =
     (let tid = Suc (timersMade w)
      in (tid, w\<lparr> timers := timers w @ [\<lparr> timer_id = tid, timer_what = what, timer_delay = delay \<rparr>],
                   timersMade := tid \<rparr>))"

definition clearTimer :: "nat \<Rightarrow> ws_client \<Rightarrow> ws_client" where
  "clearTimer tid w = w\<lparr> timers := filter (\<lambda>t. timer_id t \<noteq> tid) (timers w) \<rparr>"

definition startHeartbeat :: "ws_client \<Rightarrow> ws_client" where
  "startHeartbeat w =
     (let (tid, w1) = setTimer HeartbeatInterval (cfg_heartbeatInterval (ws_config w)) w
      in w1\<lparr> heartbeatTimer := Some tid \<rparr>)"

definition stopHeartbeat :: "ws_client \<Rightarrow> ws_client" where
  "stopHeartbeat w =
     (case heartbeatTimer w of
        Some tid \<Rightarrow> (clearTimer tid w)\<lparr> heartbeatTimer := None \<rparr>
      | None \<Rightarrow> w)"

definition clearReconnectTimer :: "ws_client \<Rightarrow> ws_client" where
  "clearReconnectTimer w =
     (case reconnectTimer w of
        Some tid \<Rightarrow> (clearTimer tid w)\<lparr> reconnectTimer := None \<rparr>
      | None \<Rightarrow> w)"

definition getState :: "ws_client \<Rightarrow> ConnectionState" where
  "getState w = state w"

definition isConnected :: "ws_client \<Rightarrow> bool" where
  "isConnected w \<longleftrightarrow>
     state w = Connected \<and> (case ws w of Some k \<Rightarrow> readyState w k = OPEN | None \<Rightarrow> False)"

subsection \<open>Reconnection\<close>

text \<open>\<open>attemptReconnect\<close> up to the \<open>setTimeout\<close>; the timer's callback is \<open>reconnect_timer_fires\<close>.\<close>

definition attemptReconnect :: "ws_client \<Rightarrow> ws_client" where
  "attemptReconnect w =
     (if state w = Reconnecting then w
      else
        (let n = Suc (reconnectAttempts w);
             delay = cfg_reconnectDelay (ws_config w) * 2 ^ min (n - 1) 5;
             w1 = w\<lparr> state := Reconnecting, reconnectAttempts := n,
                     ws_metrics := (ws_metrics w)\<lparr> reconnectCount := Suc (reconnectCount (ws_metrics w)) \<rparr> \<rparr>;
             w2 = console_log (''Attempting WebSocket reconnection '' @ string_of_nat n @ ''/'' @
                     string_of_nat (cfg_reconnectAttempts (ws_config w)) @ '' in '' @
                     string_of_nat delay @ ''ms'') w1;
             w3 = call_handler (onReconnect (eventHandlers w2)) (CalledOnReconnect n) w2;
             (tid, w4) = setTimer ReconnectTimeout delay w3
         in w4\<lparr> reconnectTimer := Some tid \<rparr>))"

text \<open>
  The \<open>catch\<close> callback that \<open>attemptReconnect\<close> attaches to the promise of the
  \<open>connect\<close> made by its timer.
\<close>

definition reconnect_failed :: "ws_client \<Rightarrow> ws_client" where
  "reconnect_failed w =
     (let w1 = console_error ''WebSocket reconnection failed:'' w
      in if reconnectAttempts w1 \<ge> cfg_reconnectAttempts (ws_config w1)
         then console_error ''WebSocket reconnection attempts exhausted'' (w1\<lparr> state := Failed \<rparr>)
         else attemptReconnect w1)"

text \<open>
  Settling the promise of a \<open>connect\<close> call. Only a pending promise changes; a rejection
  runs the \<open>catch\<close> callback when the promise carries it.
\<close>

definition resolve :: "nat \<Rightarrow> ws_client \<Rightarrow> ws_client" where
  "resolve p w =
     (if p < length (promises w) \<and> settled (promises w ! p) = Pending
      then w\<lparr> promises := (promises w)[p := (promises w ! p)\<lparr> settled := Resolved \<rparr>] \<rparr>
      else w)"

definition reject :: "nat \<Rightarrow> string \<Rightarrow> ws_client \<Rightarrow> ws_client" where
  "reject p err w =
     (if p < length (promises w) \<and> settled (promises w ! p) = Pending
      then (let w1 = w\<lparr> promises := (promises w)[p := (promises w ! p)\<lparr> settled := Rejected err \<rparr>] \<rparr>
            in if caught_by_reconnect (promises w ! p) then reconnect_failed w1 else w1)
      else w)"

subsection \<open>Sending\<close>

text \<open>
  \<open>{...message, requestId, timestamp}\<close>: the own enumerable properties of the message,
  then the two fields.
\<close>

fun spread :: "json \<Rightarrow> (string \<times> json) list" where
  "spread (JObj kvs) = kvs"
| "spread (JArr xs) = zip (map string_of_nat [0..<length xs]) xs"
| "spread (JStr s) = zip (map string_of_nat [0..<length s]) (map (\<lambda>ch. JStr [ch]) s)"
| "spread _ = []"

definition ws_generateRequestId :: "nat \<Rightarrow> string \<Rightarrow> string" where
  "ws_generateRequestId dateNow digits = ''ws_'' @ string_of_nat dateNow @ ''_'' @ take 9 digits"

text \<open>
  \<open>send\<close>: queue when not connected; otherwise hand the frame to the socket, whose
  \<open>send\<close> throws while the socket is still connecting.
\<close>

definition send :: "ws_env \<Rightarrow> json \<Rightarrow> ws_client \<Rightarrow> bool \<times> ws_client" where
  "send env message w =
     (case (if state w \<noteq> Connected then None else ws w) of
        None \<Rightarrow> (False, w\<lparr> messageQueue := messageQueue w @ [message] \<rparr>)
      | Some k \<Rightarrow>
          (let messageWithId =
                 JObj (spread message @
                   [(''requestId'', JStr (ws_generateRequestId (now w) (random_digits env (draws w)))),
                    (''timestamp'', JStr (toISOString env (now w)))]);
               w1 = w\<lparr> draws := Suc (draws w) \<rparr>
           in if readyState w k = CONNECTING
              then (False, console_error ''Failed to send WebSocket message:'' w1)
              else (True, w1\<lparr> frames := frames w1 @ [(k, messageWithId)],
                              ws_metrics := (ws_metrics w1)\<lparr> messagesSent := Suc (messagesSent (ws_metrics w1)) \<rparr> \<rparr>)))"

function processMessageQueue :: "ws_env \<Rightarrow> ws_client \<Rightarrow> ws_client" where
  "processMessageQueue env w =
     (case messageQueue w of
        [] \<Rightarrow> w
      | message # rest \<Rightarrow>
          if isConnected w
          then processMessageQueue env (snd (send env message (w\<lparr> messageQueue := rest \<rparr>)))
          else w)"
  by pat_completeness auto
termination
proof (relation "measure (\<lambda>(env, w). length (messageQueue w))")
  show "wf (measure (\<lambda>(env, w). length (messageQueue w)))" by simp
next
  fix env :: ws_env and w :: ws_client and message rest
  assume q: "messageQueue w = message # rest" and c: "isConnected w"
  have "isConnected (w\<lparr> messageQueue := rest \<rparr>)"
    using c by (simp add: isConnected_def split: option.splits)
  then have "messageQueue (snd (send env message (w\<lparr> messageQueue := rest \<rparr>))) = rest"
    by (auto simp: isConnected_def send_def Let_def console_error_def split: option.splits)
  then show "((env, snd (send env message (w\<lparr> messageQueue := rest \<rparr>))), (env, w))
      \<in> measure (\<lambda>(env, w). length (messageQueue w))"
    using q by simp
qed

declare processMessageQueue.simps [simp del]

subsection \<open>Receiving\<close>

definition isValidMessage :: "json \<Rightarrow> bool" where
  "isValidMessage message \<longleftrightarrow>
     is_object message \<and> is_string (jfield message ''type'') \<and>
     is_string (jfield message ''timestamp'') \<and> is_string (jfield message ''requestId'')"

definition recordLatency :: "int option \<Rightarrow> ws_client \<Rightarrow> ws_client" where
  "recordLatency latency w =
     (let ls = latencyMeasurements w @ [latency]
      in w\<lparr> latencyMeasurements := (if length ls > 100 then drop (length ls - 100) ls else ls) \<rparr>)"

text \<open>The cache bridge. Without a query client nothing is done, for any type of message.\<close>

definition invalidateQueries :: "nat \<Rightarrow> json list \<Rightarrow> ws_client \<Rightarrow> ws_client" where
  "invalidateQueries qc key w = w\<lparr> cache := cache w @ [InvalidateQueries qc key] \<rparr>"

definition setQueryData :: "nat \<Rightarrow> json list \<Rightarrow> json \<Rightarrow> ws_client \<Rightarrow> ws_client" where
  "setQueryData qc key v w = w\<lparr> cache := cache w @ [SetQueryData qc key v] \<rparr>"

text \<open>\<open>message.data?.violationId\<close>.\<close>

definition violationId :: "json \<Rightarrow> json option" where
  "violationId message =
     (case jfield message ''data'' of Some d \<Rightarrow> jfield d ''violationId'' | None \<Rightarrow> None)"

definition processMessage :: "ws_env \<Rightarrow> json \<Rightarrow> ws_client \<Rightarrow> ws_client" where
  "processMessage env message w =
     (case queryClient w of
        None \<Rightarrow> w
      | Some qc \<Rightarrow>
          (let ty = jfield message ''type''
           in if ty = Some (JStr ''metrics_update'')
              then invalidateQueries qc [JStr ''pulse'', JStr ''metrics''] w
              else if ty = Some (JStr ''security_alert'')
              then (let w1 = invalidateQueries qc [JStr ''pulse'', JStr ''violations''] w
                    in if truthy (violationId message)
                       then setQueryData qc
                              [JStr ''pulse'', JStr ''violations'', the (violationId message)]
                              (the (jfield message ''data'')) w1
                       else w1)
              else if ty = Some (JStr ''service_status'')
              then invalidateQueries qc [JStr ''pulse'', JStr ''services''] w
              else if ty = Some (JStr ''circuit_breaker_state'')
              then invalidateQueries qc [JStr ''pulse'', JStr ''circuitBreakers''] w
              else if ty = Some (JStr ''heartbeat'')
              then snd (send env (JObj [(''type'', JStr ''heartbeat_ack'')]) w)
              else w))"

text \<open>
  \<open>handleMessage\<close>. The argument is the outcome of \<open>JSON.parse(event.data)\<close>, \<open>None\<close>
  when it throws.
\<close>

definition handleMessage :: "ws_env \<Rightarrow> json option \<Rightarrow> ws_client \<Rightarrow> ws_client" where
  "handleMessage env parsed w =
     (let receiveTime = now w
      in case parsed of
           None \<Rightarrow> console_error ''Failed to parse WebSocket message:'' w
         | Some message \<Rightarrow>
             if \<not> isValidMessage message
             then console_warn ''Invalid WebSocket message received:'' message w
             else
               (let w1 = (case jfield message ''timestamp'' of
                            Some (JStr (ch # chs)) \<Rightarrow>
                              recordLatency
                                (map_option (\<lambda>messageTime. int receiveTime - messageTime)
                                   (parseDate env (ch # chs))) w
                          | _ \<Rightarrow> w);
                    w2 = w1\<lparr> ws_metrics := (ws_metrics w1)
                               \<lparr> messagesReceived := Suc (messagesReceived (ws_metrics w1)),
                                 lastMessageTime := receiveTime \<rparr> \<rparr>;
                    w3 = processMessage env message w2
                in call_handler (onMessage (eventHandlers w3)) (CalledOnMessage message) w3))"

subsection \<open>Closing and connecting\<close>

definition handleClose :: "nat \<Rightarrow> string \<Rightarrow> ws_client \<Rightarrow> ws_client" where
  "handleClose code reason w =
     (let w1 = console_log (''WebSocket closed: '' @ string_of_nat code @ '' - '' @ reason) w;
          w2 = stopHeartbeat (w1\<lparr> state := Disconnected \<rparr>);
          w3 = call_handler (onDisconnect (eventHandlers w2)) (CalledOnDisconnect reason) w2
      in if code \<noteq> 1000 \<and> reconnectAttempts w3 < cfg_reconnectAttempts (ws_config w3)
         then attemptReconnect w3
         else w3)"

definition buildWebSocketURL :: "ws_env \<Rightarrow> (string \<times> string) list" where
  "buildWebSocketURL env =
     (case authToken env of Some (ch # chs) \<Rightarrow> [(''token'', ch # chs)] | _ \<Rightarrow> []) @
     [(''client'', ''strathon-pulse''), (''version'', ''1.0.0'')]"

text \<open>
  \<open>connect\<close> returns its promise: already resolved, or the number of the promise that the
  handlers of the new socket and the connection timeout settle later. \<open>from_reconnect\<close>
  tells that the reconnect timer made the call, which attaches the \<open>catch\<close> callback.
\<close>

datatype connect_promise = ResolvedAtOnce | PromiseOf nat

definition connect :: "ws_env \<Rightarrow> nat option \<Rightarrow> bool \<Rightarrow> ws_client \<Rightarrow> connect_promise \<times> ws_client" where
  "connect env qc from_reconnect w =
     (if ws w \<noteq> None \<and> state w = Connected then (ResolvedAtOnce, w)
      else
        (let p = length (promises w);
             w1 = w\<lparr> promises := promises w @ [\<lparr> settled = Pending, caught_by_reconnect = from_reconnect \<rparr>],
                     queryClient := qc, state := Connecting, connectionStartTime := now w \<rparr>
         in if constructor_throws env (length (sockets w1))
            then (PromiseOf p, reject p ''constructor'' (w1\<lparr> state := Failed \<rparr>))
            else
              (let k = length (sockets w1);
                   w2 = w1\<lparr> sockets := sockets w1 @
                             [\<lparr> sock_params = buildWebSocketURL env,
                                sock_protocols = cfg_protocols (ws_config w1), sock_promise = p \<rparr>],
                           ws := Some k, readyState := (readyState w1)(k := CONNECTING) \<rparr>;
                   (tid, w3) = setTimer (ConnectionTimeout p) 10000 w2
               in (PromiseOf p, w3))))"

definition disconnect :: "ws_client \<Rightarrow> ws_client" where
  "disconnect w =
     (let w1 = clearReconnectTimer (stopHeartbeat (w\<lparr> state := Disconnected \<rparr>))
      in case ws w1 of
           Some k \<Rightarrow> w1\<lparr> readyState := (readyState w1)(k := CLOSING), ws := None \<rparr>
         | None \<Rightarrow> w1)"

text \<open>The handlers that \<open>connect\<close> installs on socket \<open>k\<close>, and the timer callbacks.\<close>

definition on_open :: "ws_env \<Rightarrow> nat \<Rightarrow> ws_client \<Rightarrow> ws_client" where
  "on_open env k w =
     (let w1 = w\<lparr> state := Connected, reconnectAttempts := 0,
                  ws_metrics := (ws_metrics w)\<lparr> connectionTime := int (now w) - int (connectionStartTime w) \<rparr> \<rparr>;
          w2 = console_log ''Strathon WebSocket connected'' w1;
          w3 = call_handler (onConnect (eventHandlers w2)) CalledOnConnect w2;
          w4 = processMessageQueue env (startHeartbeat w3)
      in resolve (sock_promise (sockets w ! k)) w4)"

definition on_error :: "nat \<Rightarrow> ws_client \<Rightarrow> ws_client" where
  "on_error k w =
     (let w1 = console_error ''Strathon WebSocket error:'' w;
          w2 = call_handler (onError (eventHandlers w1)) (CalledOnError ''WebSocket error: error'') w1
      in if state w2 = Connecting
         then reject (sock_promise (sockets w ! k)) ''WebSocket error: error'' w2
         else w2)"

definition connection_timeout_fires :: "nat \<Rightarrow> ws_client \<Rightarrow> ws_client" where
  "connection_timeout_fires p w =
     (if state w = Connecting
      then (let w1 = (case ws w of
                        Some k \<Rightarrow> w\<lparr> readyState := (readyState w)(k := CLOSING) \<rparr>
                      | None \<Rightarrow> w)
            in reject p ''WebSocket connection timeout'' w1)
      else w)"

definition reconnect_timer_fires :: "ws_env \<Rightarrow> ws_client \<Rightarrow> ws_client" where
  "reconnect_timer_fires env w = snd (connect env (queryClient w) True w)"

definition heartbeat_fires :: "ws_env \<Rightarrow> ws_client \<Rightarrow> ws_client" where
  "heartbeat_fires env w =
     (if isConnected w then snd (send env (JObj [(''type'', JStr ''heartbeat'')]) w) else w)"

text \<open>
  What can happen to the client from outside. The surroundings set the clock and the
  ready state of a socket, then run the handler; a timer that is not pending does not
  fire, and a timeout leaves \<open>timers\<close> when it fires.
\<close>

datatype ws_event =
    Opens nat
  | Delivers nat "json option"
  | Closes nat nat string
  | Errors nat
  | TimerFires nat

definition deliver :: "ws_env \<Rightarrow> nat \<Rightarrow> ws_event \<Rightarrow> ws_client \<Rightarrow> ws_client" where
  "deliver env t ev w0 =
     (let w = w0\<lparr> now := t \<rparr>
      in case ev of
           Opens k \<Rightarrow>
             if k < length (sockets w) then on_open env k (w\<lparr> readyState := (readyState w)(k := OPEN) \<rparr>)
             else w
         | Delivers k parsed \<Rightarrow> if k < length (sockets w) then handleMessage env parsed w else w
         | Closes k code reason \<Rightarrow>
             if k < length (sockets w)
             then handleClose code reason (w\<lparr> readyState := (readyState w)(k := CLOSED) \<rparr>)
             else w
         | Errors k \<Rightarrow> if k < length (sockets w) then on_error k w else w
         | TimerFires tid \<Rightarrow>
             (case filter (\<lambda>tm. timer_id tm = tid) (timers w) of
                [] \<Rightarrow> w
              | tm # tms \<Rightarrow>
                  (case timer_what tm of
                     ConnectionTimeout p \<Rightarrow> connection_timeout_fires p (clearTimer tid w)
                   | ReconnectTimeout \<Rightarrow> reconnect_timer_fires env (clearTimer tid w)
                   | HeartbeatInterval \<Rightarrow> heartbeat_fires env w)))"

fun deliver_all :: "ws_env \<Rightarrow> (nat \<times> ws_event) list \<Rightarrow> ws_client \<Rightarrow> ws_client" where
  "deliver_all env [] w = w"
| "deliver_all env ((t, ev) # evs) w = deliver_all env evs (deliver env t ev w)"

text \<open>
  The summary of a client: its state, the number of reconnect attempts made, and what
  each pending timer is for.
\<close>

definition summary :: "ws_client \<Rightarrow> ConnectionState \<times> nat \<times> timer_kind list" where
  "summary w = (state w, reconnectAttempts w, map timer_what (timers w))"



section \<open>Scenarios\<close>

subsection \<open>Request client\<close>

text \<open>
  The client of the scenario: two retries, a base delay of 100 ms and a timeout of 5000 ms,
  metrics and tracing on, an empty metric buffer. The call is a \<open>GET\<close> without options,
  entered at instant 0.
\<close>

definition scenario_client :: api_client where
  "scenario_client =
     \<lparr> config = \<lparr> baseURL = ''https://test-api.strathon.com'', timeout = 5000,
                  retryAttempts = 2, retryDelay = 100, enableMetrics = True,
                  enableTracing = True \<rparr>,
       metrics = [], abortControllers = [], controllersMade = 0 \<rparr>"

text \<open>The same client with a timeout of 100 ms, one retry and a base delay of 10 ms.\<close>

definition tight_client :: api_client where
  "tight_client =
     scenario_client\<lparr> config := (config scenario_client)
       \<lparr> timeout := 100, retryAttempts := 1, retryDelay := 10 \<rparr> \<rparr>"

text \<open>The client of the scenario with a base delay of \<open>2^31\<close> ms.\<close>

definition long_delay_client :: api_client where
  "long_delay_client =
     scenario_client\<lparr> config := (config scenario_client)\<lparr> retryDelay := 2147483648 \<rparr> \<rparr>"

definition no_options :: RequestOptions where
  "no_options =
     \<lparr> opt_timeout = None, opt_retryAttempts = None, opt_enableMetrics = None,
       opt_enableTracing = None, opt_method = None, opt_headers = Map.empty,
       opt_body = None \<rparr>"

definition scenario_env :: "(nat \<Rightarrow> nat \<times> fetch_outcome) \<Rightarrow> nat option \<Rightarrow> api_env" where
  "scenario_env script cancelAt =
     \<lparr> env_now = 0, env_dateNow = 1700000000000,
       env_random = (\<lambda>k. if k = 0 then ''k3j9x2m1q'' else ''8fh2kd91mzp0q7ws''),
       env_localToken = None, env_envToken = None, env_transport = script,
       env_cancelAt = cancelAt \<rparr>"

definition ok_body :: json where
  "ok_body =
     JObj [(''data'', JObj [(''test'', JStr ''data'')]), (''success'', JBool True),
           (''timestamp'', JStr ''2024-01-01T00:00:00Z''),
           (''requestId'', JStr ''test-request-id''), (''version'', JStr ''1.0.0'')]"

definition ok_response :: response where
  "ok_response =
     \<lparr> resp_status = 200, resp_ok = True, resp_statusText = ''OK'', resp_body = Some ok_body,
       resp_readTime = 0 \<rparr>"

definition error_response :: "nat \<Rightarrow> json option \<Rightarrow> response" where
  "error_response s b =
     \<lparr> resp_status = s, resp_ok = False, resp_statusText = [], resp_body = b,
       resp_readTime = 0 \<rparr>"

definition server_error :: response where
  "server_error =
     error_response 500
       (Some (JObj [(''message'', JStr ''Server error''), (''code'', JStr ''SERVER_ERROR'')]))"

text \<open>
  Transport scripts. Every attempt settles after 10 ms unless said otherwise, and a body
  is read in no time unless said otherwise.
  \<^item> \<open>rejects_twice\<close>: two network failures, then the valid response.
  \<^item> \<open>errors_twice\<close>: two responses with status 500, then the valid response.
  \<^item> \<open>slow_retry\<close>: a 500 after 60 ms, then a valid response 50 ms after its attempt started.
  \<^item> \<open>slow_answer\<close>: the valid response after 1000 ms.
  \<^item> \<open>not_found_null\<close>: always status 404 with the JSON body \<open>null\<close>.
  \<^item> \<open>not_found\<close>: always status 404 with an error object.
  \<^item> \<open>server_error_then_not_found\<close>: status 500, then status 404 with an error object.
  \<^item> \<open>not_found_slow_body\<close>: status 404 after 60 ms, with an error object whose read
    takes 50 ms.
\<close>

definition rejects_twice :: "nat \<Rightarrow> nat \<times> fetch_outcome" where
  "rejects_twice n = (if n < 2 then (10, Rejects ''Network error'') else (10, Responds ok_response))"

definition errors_twice :: "nat \<Rightarrow> nat \<times> fetch_outcome" where
  "errors_twice n = (if n < 2 then (10, Responds server_error) else (10, Responds ok_response))"


definition slow_answer :: "nat \<Rightarrow> nat \<times> fetch_outcome" where
  "slow_answer n = (1000, Responds ok_response)"

definition not_found_null :: "nat \<Rightarrow> nat \<times> fetch_outcome" where
  "not_found_null n = (10, Responds (error_response 404 (Some JNull)))"

definition not_found :: "nat \<Rightarrow> nat \<times> fetch_outcome" where
  "not_found n =
     (10, Responds (error_response 404
        (Some (JObj [(''message'', JStr ''Not found''), (''code'', JStr ''NOT_FOUND'')]))))"

definition server_error_then_not_found :: "nat \<Rightarrow> nat \<times> fetch_outcome" where
  "server_error_then_not_found n =
     (if n = 0 then (10, Responds server_error)
      else (10, Responds (error_response 404
              (Some (JObj [(''message'', JStr ''Not found''), (''code'', JStr ''NOT_FOUND'')])))))"

definition not_found_slow_body :: "nat \<Rightarrow> nat \<times> fetch_outcome" where
  "not_found_slow_body n =
     (60, Responds ((error_response 404
        (Some (JObj [(''message'', JStr ''Not found''), (''code'', JStr ''NOT_FOUND'')])))
        \<lparr> resp_readTime := 50 \<rparr>))"



subsection \<open>Event-stream client\<close>

text \<open>
  A client with at most two reconnect attempts, a reconnect delay of 100 ms and all user
  callbacks set, in surroundings where no token is stored and no constructor throws.
  \<open>connected_client qc\<close> has called \<open>connect\<close> with the query client \<open>qc\<close> (or without one)
  and its socket 0 has opened 10 ms later.
\<close>

definition scenario_config :: WebSocketConfig where
  "scenario_config =
     \<lparr> cfg_url = ''wss://test-api.strathon.com/realtime'', cfg_protocols = [''strathon-pulse-v1''],
       cfg_reconnectAttempts = 2, cfg_reconnectDelay = 100, cfg_heartbeatInterval = 1000,
       cfg_messageTimeout = 5000, cfg_enableMetrics = True \<rparr>"

definition scenario_ws_env :: ws_env where
  "scenario_ws_env =
     \<lparr> random_digits = (\<lambda>k. ''k3j9x2m1q''), toISOString = (\<lambda>t. ''2024-01-01T00:00:00Z''),
       parseDate = (\<lambda>s. Some 0), authToken = None, constructor_throws = (\<lambda>n. False) \<rparr>"

definition all_handlers :: WebSocketEventHandlers where
  "all_handlers =
     \<lparr> onMessage = True, onConnect = True, onDisconnect = True, onError = True,
       onReconnect = True \<rparr>"

definition connected_client :: "nat option \<Rightarrow> ws_client" where
  "connected_client qc =
     deliver scenario_ws_env 10 (Opens 0)
       (snd (connect scenario_ws_env qc False
          ((new_client scenario_config)\<lparr> eventHandlers := all_handlers \<rparr>)))"

definition security_alert :: json where
  "security_alert =
     JObj [(''type'', JStr ''security_alert''), (''timestamp'', JStr ''2024-01-01T00:00:00Z''),
           (''requestId'', JStr ''test-request-id''),
           (''data'', JObj [(''violationId'', JStr ''v-1''), (''severity'', JStr ''high'')]),
           (''version'', JStr ''1.0.0'')]"

definition invalid_message :: json where
  "invalid_message = JObj [(''invalid'', JStr ''message'')]"

text \<open>
  Two ways for the reconnections to run out after socket 0 has closed with code 1006.
  In \<open>errors_only\<close> each new socket raises an error event while it is connecting. In
  \<open>errors_then_closes\<close> the error event of each new socket is followed by its close event
  with code 1006. Timers 3 and 5 are the reconnect timers.
\<close>

definition errors_only :: "(nat \<times> ws_event) list" where
  "errors_only =
     [(20, Closes 0 1006 ''Connection lost''), (120, TimerFires 3), (130, Errors 1),
      (330, TimerFires 5), (340, Errors 2)]"

definition errors_then_closes :: "(nat \<times> ws_event) list" where
  "errors_then_closes =
     [(20, Closes 0 1006 ''Connection lost''), (120, TimerFires 3), (130, Errors 1),
      (130, Closes 1 1006 []), (330, TimerFires 5), (340, Errors 2), (340, Closes 2 1006 [])]"

text \<open>
  The connected client with at most three reconnect attempts, and the events of one
  failed reconnection: socket 0 closes with code 1006, the reconnect timer makes socket 1,
  and socket 1 raises its error event and then its close event.
\<close>

definition three_attempts_client :: ws_client where
  "three_attempts_client =
     (connected_client (Some 0))\<lparr> ws_config := scenario_config\<lparr> cfg_reconnectAttempts := 3 \<rparr> \<rparr>"

definition error_then_close :: "(nat \<times> ws_event) list" where
  "error_then_close =
     [(20, Closes 0 1006 ''Connection lost''), (120, TimerFires 3), (130, Errors 1),
      (130, Closes 1 1006 [])]"


section \<open>Properties of the request client\<close>

subsection \<open>Projections and single steps\<close>

lemma pace_append: "pace (xs @ ys) = pace xs @ pace ys"
  by (induction xs rule: pace.induct) simp_all

lemma calls_append: "calls (xs @ ys) = calls xs @ calls ys"
  by (induction xs rule: calls.induct) simp_all

lemma sleeps_append: "sleeps (xs @ ys) = sleeps xs @ sleeps ys"
  by (induction xs rule: sleeps.induct) simp_all

lemma responses_append: "responses (xs @ ys) = responses xs @ responses ys"
  by (induction xs rule: responses.induct) simp_all

lemma aborts_append: "aborts (xs @ ys) = aborts xs @ aborts ys"
  by (induction xs rule: aborts.induct) simp_all



lemma after_loop_run: "snd (after_loop cx r) = r"
  by (simp add: after_loop_def split: option.splits js_error.splits)

lemma attempt_loop_exit: "cx_retryAttempts cx < a \<Longrightarrow> attempt_loop cx a r = after_loop cx r"
  by (simp add: attempt_loop.simps [of cx a r])

text \<open>The three ways in which the transport call of an iteration settles.\<close>

lemma try_block_cases [case_names aborted rejected responded]:
  assumes "cx_abortAt cx < clock r + fst (cx_transport cx a) \<Longrightarrow>
             try_block cx a r =
               (Inl (JsError ''AbortError'' ''The operation was aborted''),
                r\<lparr> clock := max (clock r) (cx_abortAt cx),
                   trace := trace r @ [Attempt (fetch_call_of cx a r)
                                        (max (clock r) (cx_abortAt cx)) SignalAborted] \<rparr>) \<Longrightarrow> P"
    and "\<And>msg. \<not> cx_abortAt cx < clock r + fst (cx_transport cx a) \<Longrightarrow>
             snd (cx_transport cx a) = Rejects msg \<Longrightarrow>
             try_block cx a r =
               (Inl (JsError ''TypeError'' msg),
                r\<lparr> clock := clock r + fst (cx_transport cx a),
                   trace := trace r @ [Attempt (fetch_call_of cx a r)
                                        (clock r + fst (cx_transport cx a)) (NetworkFailure msg)] \<rparr>) \<Longrightarrow> P"
    and "\<And>resp. \<not> cx_abortAt cx < clock r + fst (cx_transport cx a) \<Longrightarrow>
             snd (cx_transport cx a) = Responds resp \<Longrightarrow>
             try_block cx a r =
               (decode cx resp (fst (read_body cx (clock r + fst (cx_transport cx a)) resp)),
                r\<lparr> clock := snd (read_body cx (clock r + fst (cx_transport cx a)) resp),
                   trace := trace r @ [Attempt (fetch_call_of cx a r)
                                        (clock r + fst (cx_transport cx a)) (Response resp)],
                   samples := (if cx_enableMetrics cx
                               then collectMetrics (samples r)
                                      (new_sample cx (retryCountVar r)
                                         (clock r + fst (cx_transport cx a)) resp)
                               else samples r) \<rparr>) \<Longrightarrow> P"
  shows P
proof -
  obtain latency outcome where tr: "cx_transport cx a = (latency, outcome)"
    by (cases "cx_transport cx a")
  show ?thesis
  proof (cases "cx_abortAt cx < clock r + latency")
    case True
    then show ?thesis
      using assms(1) tr by (simp add: try_block_def log_event_def Let_def)
  next
    case False
    show ?thesis
    proof (cases outcome)
      case (Rejects msg)
      then show ?thesis
        using False assms(2) [of msg] tr by (simp add: try_block_def log_event_def Let_def)
    next
      case (Responds resp)
      then show ?thesis
        using False assms(3) [of resp] tr
        by (simp add: try_block_def log_event_def Let_def split: prod.splits)
    qed
  qed
qed

text \<open>
  The error thrown after a response is an \<open>AbortError\<close> only when the response is ok and
  the read of its body was interrupted.
\<close>

lemma decode_abort:
  "(\<exists>e. decode cx resp (fst (read_body cx t resp)) = Inl e \<and> error_name e = ''AbortError'') \<longleftrightarrow>
     resp_ok resp \<and> cx_abortAt cx < t + resp_readTime resp"
  by (auto simp: decode_def http_error_def read_body_def Let_def split: if_splits option.splits)

lemma read_body_clock: "t \<le> snd (read_body cx t resp)"
  by (simp add: read_body_def)

lemma read_body_later: "t \<le> snd (read_body cx (t + n) resp)"
  using read_body_clock [of "t + n" cx resp] by simp

lemma catch_block_Break:
  "catch_block cx a e r = Break r' \<Longrightarrow>
     trace r' = trace r \<and> samples r' = samples r \<and> clock r' = clock r \<and>
     lastError r' = Some e \<and> is_APIError e \<and> error_status e \<in> {Some 401, Some 403, Some 404}"
  by (auto simp: catch_block_def Let_def split: if_splits)

lemma catch_block_Throw:
  "catch_block cx a e r = Throw e' r' \<Longrightarrow>
     trace r' = trace r \<and> samples r' = samples r \<and> clock r' = clock r \<and>
     e' = timeout_error cx \<and> error_name e = ''AbortError''"
  by (auto simp: catch_block_def Let_def split: if_splits)

lemma catch_block_Continue:
  "catch_block cx a e r = Continue r' \<Longrightarrow>
     trace r' = trace r @ (if a < cx_retryAttempts cx then [Slept (cx_retryDelay cx * 2 ^ a)] else []) \<and>
     samples r' = samples r \<and> retryCountVar r' = a \<and> lastError r' = Some e \<and>
     clock r' = clock r + (if a < cx_retryAttempts cx
                           then setTimeout_delay (cx_retryDelay cx * 2 ^ a) else 0) \<and>
     error_name e \<noteq> ''AbortError''"
  by (auto simp: catch_block_def Let_def sleep_def log_event_def split: if_splits)

lemma catch_block_abort:
  "catch_block cx a (JsError ''AbortError'' m) r =
     Throw (timeout_error cx) (r\<lparr> lastError := Some (JsError ''AbortError'' m), retryCountVar := a \<rparr>)"
  by (simp add: catch_block_def Let_def)

text \<open>
  The loop, one iteration at a time: what holds of the result of every way to leave an
  iteration, and is passed on by the next iteration, holds of the loop.
\<close>

lemma attempt_loop_rule:
  assumes ret: "\<And>a r d r'. a \<le> cx_retryAttempts cx \<Longrightarrow> try_block cx a r = (Inr d, r') \<Longrightarrow>
                  Q a r (Inr d, r')"
    and brk: "\<And>a r e r' r''. a \<le> cx_retryAttempts cx \<Longrightarrow> try_block cx a r = (Inl e, r') \<Longrightarrow>
                  catch_block cx a e r' = Break r'' \<Longrightarrow> Q a r (after_loop cx r'')"
    and thr: "\<And>a r e r' e' r''. a \<le> cx_retryAttempts cx \<Longrightarrow> try_block cx a r = (Inl e, r') \<Longrightarrow>
                  catch_block cx a e r' = Throw e' r'' \<Longrightarrow> Q a r (Inl e', r'')"
    and cont: "\<And>a r e r' r''. a \<le> cx_retryAttempts cx \<Longrightarrow> try_block cx a r = (Inl e, r') \<Longrightarrow>
                  catch_block cx a e r' = Continue r'' \<Longrightarrow>
                  Q (Suc a) r'' (attempt_loop cx (Suc a) r'') \<Longrightarrow>
                  Q a r (attempt_loop cx (Suc a) r'')"
    and exit: "\<And>a r. cx_retryAttempts cx < a \<Longrightarrow> Q a r (after_loop cx r)"
  shows "Q a r (attempt_loop cx a r)"
proof (induction "Suc (cx_retryAttempts cx) - a" arbitrary: a r)
  case 0
  then have "cx_retryAttempts cx < a" by simp
  then show ?case using exit [of a r] by (simp add: attempt_loop_exit)
next
  case (Suc n)
  then have le: "a \<le> cx_retryAttempts cx" by simp
  obtain res r' where tb: "try_block cx a r = (res, r')" by (cases "try_block cx a r")
  show ?case
  proof (cases res)
    case (Inr d)
    then have "attempt_loop cx a r = (Inr d, r')"
      using le tb by (simp add: attempt_loop.simps [of cx a r])
    then show ?thesis using ret [OF le] tb Inr by simp
  next
    case (Inl e)
    show ?thesis
    proof (cases "catch_block cx a e r'")
      case (Break r'')
      then have "attempt_loop cx a r = after_loop cx r''"
        using le tb Inl by (simp add: attempt_loop.simps [of cx a r])
      then show ?thesis using brk [OF le _ Break] tb Inl by simp
    next
      case (Throw e' r'')
      then have "attempt_loop cx a r = (Inl e', r'')"
        using le tb Inl by (simp add: attempt_loop.simps [of cx a r])
      then show ?thesis using thr [OF le _ Throw] tb Inl by simp
    next
      case (Continue r'')
      then have loop: "attempt_loop cx a r = attempt_loop cx (Suc a) r''"
        using le tb Inl by (simp add: attempt_loop.simps [of cx a r])
      have "n = Suc (cx_retryAttempts cx) - Suc a" using Suc.hyps(2) by simp
      then have "Q (Suc a) r'' (attempt_loop cx (Suc a) r'')" by (rule Suc.hyps(1))
      then show ?thesis using cont [OF le _ Continue] tb Inl loop by simp
    qed
  qed
qed

text \<open>What one iteration adds to the trace.\<close>

lemma try_block_trace:
  "try_block cx a r = (res, r') \<Longrightarrow>
     \<exists>t s. trace r' = trace r @ [Attempt (fetch_call_of cx a r) t s] \<and> clock r \<le> clock r'"
  by (rule try_block_cases [of cx r a]) (auto simp: read_body_later)

lemma try_block_pace: "pace (trace (snd (try_block cx a r))) = pace (trace r) @ [Inl a]"
  by (rule try_block_cases [of cx r a]) (simp_all add: pace_append fetch_call_of_def)

text \<open>
  What an iteration adds to the trace is one event: the call is made where the clock
  stood, and the clock ends where the \<open>try\<close> block was left.
\<close>

lemma try_block_event:
  assumes "try_block cx a r = (res, r')"
  shows "\<exists>c t s. trace r' = trace r @ [Attempt c t s] \<and> call_at c = clock r \<and>
           clock r' = left_at cx t s \<and>
           (\<forall>resp. s = Response resp \<longrightarrow>
              res = decode cx resp (fst (read_body cx t resp)) \<and> \<not> cx_abortAt cx < t)"
  by (rule try_block_cases [of cx r a])
    (use assms in \<open>auto simp: fetch_call_of_def max_def\<close>)

lemma on_time_append:
  "on_time cx t0 (xs @ ys) \<longleftrightarrow> on_time cx t0 xs \<and> on_time cx (clock_after cx t0 xs) ys"
  by (induction cx t0 xs rule: on_time.induct) auto

lemma clock_after_append:
  "clock_after cx t0 (xs @ ys) = clock_after cx (clock_after cx t0 xs) ys"
  by (induction cx t0 xs rule: clock_after.induct) auto

lemma leaves_append: "leaves cx (xs @ ys) = leaves cx xs @ leaves cx ys"
  by (induction cx xs rule: leaves.induct) simp_all

lemma length_leaves: "length (leaves cx tr) = length (calls tr)"
  by (induction cx tr rule: leaves.induct) simp_all



subsection \<open>The whole call\<close>

lemma request_result:
  "result_of c env endpoint options =
     fst (attempt_loop (request_ctx_of c env endpoint options) 0 (initial_run c env))"
  by (simp add: result_of_def request_def Let_def split: prod.splits)

lemma request_run:
  "run_of c env endpoint options =
     snd (attempt_loop (request_ctx_of c env endpoint options) 0 (initial_run c env))"
  by (simp add: run_of_def request_def Let_def split: prod.splits)


lemma report_request:
  "report (request c env endpoint options) =
     (result_of c env endpoint options,
      map status (metrics (client_after c env endpoint options)),
      map resp_status (responses (trace (run_of c env endpoint options))),
      pace (trace (run_of c env endpoint options)),
      map call_at (calls (trace (run_of c env endpoint options))),
      aborts (trace (run_of c env endpoint options)),
      clock (run_of c env endpoint options))"
  by (simp add: report_def result_of_def client_after_def run_of_def split: prod.splits)

lemma cx_simps [simp]:
  "cx_retryAttempts (request_ctx_of c env endpoint options) = effective_retryAttempts c options"
  "cx_retryDelay (request_ctx_of c env endpoint options) = retryDelay (config c)"
  "cx_timeout (request_ctx_of c env endpoint options) = effective_timeout c options"
  "cx_enableMetrics (request_ctx_of c env endpoint options) = effective_enableMetrics c options"
  "cx_startTime (request_ctx_of c env endpoint options) = env_now env"
  "cx_transport (request_ctx_of c env endpoint options) = env_transport env"
  "cx_requestId (request_ctx_of c env endpoint options) =
     generateRequestId (env_dateNow env) (env_random env 0)"
  "cx_abortAt (request_ctx_of c env endpoint options) =
     abort_instant (env_now env) (effective_timeout c options) (env_cancelAt env)"
  by (simp_all add: request_ctx_of_def Let_def)

text \<open>Unfolding a concrete call down to its steps.\<close>

lemmas run_eval =
  report_def result_of_def client_after_def run_of_def request_def register_def cancelAllRequests_def
  request_ctx_of_def initial_run_def effective_timeout_def effective_retryAttempts_def
  effective_enableMetrics_def effective_enableTracing_def abort_instant_def prepare_headers_def
  getAuthToken_def generateRequestId_def generateTraceId_def attempt_loop.simps try_block_def
  catch_block_def after_loop_def timeout_error_def decode_def http_error_def
  parseErrorResponse_def isValidAPIResponse_def js_or_def fetch_call_of_def new_sample_def
  collectMetrics_def log_event_def sleep_def setTimeout_delay_def read_body_def Let_def
  string_of_nat.simps

lemmas scenario_defs =
  scenario_client_def tight_client_def long_delay_client_def scenario_env_def no_options_def ok_body_def ok_response_def
  error_response_def server_error_def


subsection \<open>Bounded retries and exponential backoff\<close>

lemma backoff_same: "backoff d a a = [Inl a]"
  by (simp add: backoff_def)

lemma backoff_step: "a < m \<Longrightarrow> backoff d a m = Inl a # Inr (d * 2 ^ a) # backoff d (Suc a) m"
  by (simp add: backoff_def upt_conv_Cons)

lemma attempt_loop_pace:
  "a \<le> cx_retryAttempts cx \<longrightarrow>
     (\<exists>m. a \<le> m \<and> m \<le> cx_retryAttempts cx \<and>
         pace (trace (snd (attempt_loop cx a r))) = pace (trace r) @ backoff (cx_retryDelay cx) a m)"
proof (rule attempt_loop_rule [where Q = "\<lambda>a r x. a \<le> cx_retryAttempts cx \<longrightarrow>
     (\<exists>m. a \<le> m \<and> m \<le> cx_retryAttempts cx \<and>
         pace (trace (snd x)) = pace (trace r) @ backoff (cx_retryDelay cx) a m)"], goal_cases)
  case (1 a r d r')
  then show ?case using try_block_pace [of cx a r] by (auto simp: backoff_same intro!: exI [of _ a])
next
  case (2 a r e r' r'')
  then show ?case using try_block_pace [of cx a r] catch_block_Break [of cx a e r' r'']
    by (auto simp: backoff_same after_loop_run intro!: exI [of _ a])
next
  case (3 a r e r' e' r'')
  then show ?case using try_block_pace [of cx a r] catch_block_Throw [of cx a e r' e' r'']
    by (auto simp: backoff_same intro!: exI [of _ a])
next
  case (4 a r e r' r'')
  have p': "pace (trace r') = pace (trace r) @ [Inl a]"
    using try_block_pace [of cx a r] 4(2) by simp
  show ?case
  proof (cases "a < cx_retryAttempts cx")
    case True
    then obtain m where m: "Suc a \<le> m" "m \<le> cx_retryAttempts cx"
      "pace (trace (snd (attempt_loop cx (Suc a) r''))) =
         pace (trace r'') @ backoff (cx_retryDelay cx) (Suc a) m" using 4(4) by auto
    have "pace (trace r'') = pace (trace r) @ [Inl a, Inr (cx_retryDelay cx * 2 ^ a)]"
      using catch_block_Continue [OF 4(3)] True p' by (simp add: pace_append)
    with m have "pace (trace (snd (attempt_loop cx (Suc a) r''))) =
        pace (trace r) @ backoff (cx_retryDelay cx) a m"
      by (simp add: backoff_step)
    with m show ?thesis by (auto intro!: exI [of _ m])
  next
    case False
    then have "attempt_loop cx (Suc a) r'' = after_loop cx r''"
      by (simp add: attempt_loop_exit)
    moreover have "trace r'' = trace r'" using catch_block_Continue [OF 4(3)] False by simp
    ultimately show ?thesis using p' 4(1)
      by (auto simp: backoff_same after_loop_run intro!: exI [of _ a])
  qed
next
  case (5 a r)
  then show ?case by simp
qed

lemma request_pace:
  "\<exists>m\<le>effective_retryAttempts c options.
     pace (trace (run_of c env endpoint options)) = backoff (retryDelay (config c)) 0 m"
  using attempt_loop_pace [of 0 "request_ctx_of c env endpoint options" "initial_run c env"]
  by (auto simp: request_run initial_run_def)

lemma calls_of_pace: "length (calls tr) = length (filter isl (pace tr))"
  by (induction tr rule: pace.induct) simp_all


lemma backoff_calls:
  "length (filter isl (concat (map (\<lambda>n. [Inl n, Inr (f n)]) ns))) = length ns"
  by (induction ns) simp_all




lemma attempt_loop_on_time:
  "\<exists>ext. trace (snd (attempt_loop cx a r)) = trace r @ ext \<and> on_time cx (clock r) ext \<and>
     clock (snd (attempt_loop cx a r)) = clock_after cx (clock r) ext"
proof (rule attempt_loop_rule [where Q = "\<lambda>a r x.
    \<exists>ext. trace (snd x) = trace r @ ext \<and> on_time cx (clock r) ext \<and>
      clock (snd x) = clock_after cx (clock r) ext"], goal_cases)
  case (1 a r d r')
  obtain c t s where ev: "trace r' = trace r @ [Attempt c t s]" "call_at c = clock r"
    "clock r' = left_at cx t s"
    using try_block_event [OF 1(2)] by blast
  show ?case by (intro exI [of _ "[Attempt c t s]"]) (use ev in simp)
next
  case (2 a r e r' r'')
  obtain c t s where ev: "trace r' = trace r @ [Attempt c t s]" "call_at c = clock r"
    "clock r' = left_at cx t s"
    using try_block_event [OF 2(2)] by blast
  show ?case
    by (intro exI [of _ "[Attempt c t s]"])
      (use ev catch_block_Break [OF 2(3)] in \<open>simp add: after_loop_run\<close>)
next
  case (3 a r e r' e' r'')
  obtain c t s where ev: "trace r' = trace r @ [Attempt c t s]" "call_at c = clock r"
    "clock r' = left_at cx t s"
    using try_block_event [OF 3(2)] by blast
  show ?case
    by (intro exI [of _ "[Attempt c t s]"]) (use ev catch_block_Throw [OF 3(3)] in simp)
next
  case (4 a r e r' r'')
  obtain c t s where ev: "trace r' = trace r @ [Attempt c t s]" "call_at c = clock r"
    "clock r' = left_at cx t s"
    using try_block_event [OF 4(2)] by blast
  note co = catch_block_Continue [OF 4(3)]
  obtain ext where ext: "trace (snd (attempt_loop cx (Suc a) r'')) = trace r'' @ ext"
    "on_time cx (clock r'') ext"
    "clock (snd (attempt_loop cx (Suc a) r'')) = clock_after cx (clock r'') ext"
    using 4(4) by blast
  let ?sl = "if a < cx_retryAttempts cx then [Slept (cx_retryDelay cx * 2 ^ a)] else []"
  have "trace (snd (attempt_loop cx (Suc a) r'')) = trace r @ (Attempt c t s # ?sl @ ext)"
    using ext(1) ev(1) co by simp
  moreover have "on_time cx (clock r) (Attempt c t s # ?sl @ ext)"
    using ext(2) ev(2,3) co by (cases "a < cx_retryAttempts cx") simp_all
  moreover have "clock (snd (attempt_loop cx (Suc a) r'')) =
      clock_after cx (clock r) (Attempt c t s # ?sl @ ext)"
    using ext(3) ev(3) co by (cases "a < cx_retryAttempts cx") simp_all
  ultimately show ?case by blast
next
  case (5 a r)
  then show ?case by (simp add: after_loop_run)
qed












subsection \<open>One correlation id and one trace id for all attempts of a call\<close>

lemma attempt_loop_headers:
  "list_all (\<lambda>call. call_headers call = cx_headers cx) (calls (trace r)) \<longrightarrow>
   list_all (\<lambda>call. call_headers call = cx_headers cx) (calls (trace (snd (attempt_loop cx a r))))"
proof (rule attempt_loop_rule [where Q = "\<lambda>a r x.
    list_all (\<lambda>call. call_headers call = cx_headers cx) (calls (trace r)) \<longrightarrow>
    list_all (\<lambda>call. call_headers call = cx_headers cx) (calls (trace (snd x)))"], goal_cases)
  case (1 a r d r')
  then show ?case using try_block_trace [of cx a r "Inr d" r']
    by (auto simp: calls_append fetch_call_of_def)
next
  case (2 a r e r' r'')
  then show ?case using try_block_trace [of cx a r "Inl e" r'] catch_block_Break [of cx a e r' r'']
    by (auto simp: calls_append fetch_call_of_def after_loop_run)
next
  case (3 a r e r' e' r'')
  then show ?case using try_block_trace [of cx a r "Inl e" r'] catch_block_Throw [of cx a e r' e' r'']
    by (auto simp: calls_append fetch_call_of_def)
next
  case (4 a r e r' r'')
  then show ?case using try_block_trace [of cx a r "Inl e" r'] catch_block_Continue [of cx a e r' r'']
    by (auto simp: calls_append fetch_call_of_def)
next
  case (5 a r)
  then show ?case by (simp add: after_loop_run)
qed

lemma list_all_map_replicate: "list_all (\<lambda>x. f x = v) xs \<Longrightarrow> map f xs = replicate (length xs) v"
  by (induction xs) simp_all

lemma request_headers:
  "map call_headers (calls (trace (run_of c env endpoint options))) =
     replicate (length (calls (trace (run_of c env endpoint options))))
       (cx_headers (request_ctx_of c env endpoint options))"
  using attempt_loop_headers [of "request_ctx_of c env endpoint options" "initial_run c env" 0]
  by (simp add: request_run initial_run_def list_all_map_replicate)

lemma map_header:
  "map call_headers cs = replicate (length cs) h \<Longrightarrow>
     map (\<lambda>call. call_headers call k) cs = replicate (length cs) (h k)"
proof -
  assume a: "map call_headers cs = replicate (length cs) h"
  have "map (\<lambda>call. call_headers call k) cs = map (\<lambda>hd. hd k) (map call_headers cs)" by simp
  also have "\<dots> = replicate (length cs) (h k)" unfolding a by simp
  finally show ?thesis .
qed

lemma request_id_header:
  "cx_headers (request_ctx_of c env endpoint options) ''x-request-id'' =
     Some (generateRequestId (env_dateNow env) (env_random env 0))"
  by (simp add: request_ctx_of_def prepare_headers_def Let_def split: option.splits)

lemma trace_id_header:
  "cx_headers (request_ctx_of c env endpoint options) ''x-trace-id'' =
     (if effective_enableTracing c options
      then Some (generateTraceId (env_dateNow env) (env_random env 1))
      else opt_headers options ''x-trace-id'')"
  by (simp add: request_ctx_of_def prepare_headers_def Let_def split: option.splits)

lemma request_calls_nonempty: "calls (trace (run_of c env endpoint options)) \<noteq> []"
proof -
  obtain m where "pace (trace (run_of c env endpoint options)) = backoff (retryDelay (config c)) 0 m"
    using request_pace [of c options env endpoint] by blast
  then have "length (calls (trace (run_of c env endpoint options))) = Suc m"
    by (simp add: calls_of_pace backoff_def backoff_calls)
  then show ?thesis by auto
qed

text \<open>
  C1, as the code has it. A call mints one request id at entry, from the clock and the
  first random draw, and, when tracing is on, one trace id from the second draw. They are
  written once into the one set of headers that every transport attempt of the call is
  given: all attempts of a call, retries included, carry the same \<open>X-Request-ID\<close> and
  the same \<open>X-Trace-ID\<close>. With tracing off the trace id header is whatever the caller
  put into the options.
\<close>

theorem request_attempts_share_ids:
  "calls (trace (run_of c env endpoint options)) \<noteq> [] \<and>
   map (\<lambda>call. call_headers call ''x-request-id'') (calls (trace (run_of c env endpoint options))) =
     replicate (length (calls (trace (run_of c env endpoint options))))
       (Some (generateRequestId (env_dateNow env) (env_random env 0))) \<and>
   map (\<lambda>call. call_headers call ''x-trace-id'') (calls (trace (run_of c env endpoint options))) =
     replicate (length (calls (trace (run_of c env endpoint options))))
       (if effective_enableTracing c options
        then Some (generateTraceId (env_dateNow env) (env_random env 1))
        else opt_headers options ''x-trace-id'')"
proof -
  have h: "map call_headers (calls (trace (run_of c env endpoint options))) =
     replicate (length (calls (trace (run_of c env endpoint options))))
       (cx_headers (request_ctx_of c env endpoint options))"
    by (rule request_headers)
  show ?thesis
    using map_header [OF h, of "''x-request-id''"] map_header [OF h, of "''x-trace-id''"]
    by (simp add: request_calls_nonempty request_id_header trace_id_header)
qed

theorem request_attempts_share_ids_witness:
  "map (\<lambda>call. call_headers call ''x-request-id'')
     (calls (trace (run_of scenario_client (scenario_env errors_twice None) ''/test-endpoint'' no_options))) =
     replicate 3 (Some ''req_1700000000000_k3j9x2m1q'') \<and>
   map (\<lambda>call. call_headers call ''x-trace-id'')
     (calls (trace (run_of scenario_client (scenario_env errors_twice None) ''/test-endpoint'' no_options))) =
     replicate 3 (Some ''trace_1700000000000_8fh2kd91mzp0q7ws'')"
proof -
  have n: "length (calls (trace (run_of scenario_client (scenario_env errors_twice None)
      ''/test-endpoint'' no_options))) = 3"
    by (simp add: run_eval scenario_defs errors_twice_def)
  show ?thesis
    using request_attempts_share_ids
      [of scenario_client "scenario_env errors_twice None" "''/test-endpoint''" no_options]
    unfolding n
    by (simp add: effective_enableTracing_def generateRequestId_def generateTraceId_def
        scenario_defs string_of_nat.simps)
qed

text \<open>
  The three attempts of the scenario with two network failures carry one and the same
  correlation id and one and the same trace id.
\<close>

theorem retries_reuse_correlation_id:
  "map (\<lambda>call. (call_attempt call, call_headers call ''x-request-id'', call_headers call ''x-trace-id''))
     (calls (trace (run_of scenario_client (scenario_env rejects_twice None) ''/test-endpoint'' no_options))) =
   [(0, Some ''req_1700000000000_k3j9x2m1q'', Some ''trace_1700000000000_8fh2kd91mzp0q7ws''),
    (1, Some ''req_1700000000000_k3j9x2m1q'', Some ''trace_1700000000000_8fh2kd91mzp0q7ws''),
    (2, Some ''req_1700000000000_k3j9x2m1q'', Some ''trace_1700000000000_8fh2kd91mzp0q7ws'')]"
  by (simp add: run_eval scenario_defs rejects_twice_def)


subsection \<open>Metric samples\<close>









subsection \<open>The timeout\<close>

lemma missed_fetch_call_of:
  "missed cx (fetch_call_of cx a r) \<longleftrightarrow>
     cx_abortAt cx < clock r + fst (cx_transport cx a) \<or>
     (\<exists>resp. snd (cx_transport cx a) = Responds resp \<and> resp_ok resp \<and>
        cx_abortAt cx < clock r + fst (cx_transport cx a) + resp_readTime resp)"
  by (cases "cx_transport cx a")
    (auto simp: missed_def fetch_call_of_def split: fetch_outcome.splits)

lemma try_block_missed:
  assumes "try_block cx a r = (res, r')"
  shows "(\<exists>t s. trace r' = trace r @ [Attempt (fetch_call_of cx a r) t s]) \<and>
         (missed cx (fetch_call_of cx a r) \<longleftrightarrow> (\<exists>e. res = Inl e \<and> error_name e = ''AbortError''))"
proof (rule try_block_cases [of cx r a], goal_cases)
  case 1
  then show ?case using assms by (auto simp: missed_fetch_call_of)
next
  case (2 msg)
  then show ?case using assms by (auto simp: missed_fetch_call_of)
next
  case (3 resp)
  then show ?case
    using assms decode_abort [of cx resp "clock r + fst (cx_transport cx a)"]
    by (auto simp: missed_fetch_call_of)
qed







text \<open>
  When the timer fires while the body of an error response is being read, the \<open>catch\<close>
  of \<open>parseErrorResponse\<close> takes the \<open>AbortError\<close>. With a timeout of 100 ms, a response
  with status 404 after 60 ms and a body that takes 50 ms to read: the call ends at 100 ms
  in the \<open>APIError\<close> made from the substitute object, not in a \<open>TimeoutError\<close>.
\<close>

lemma timeout_during_error_body_is_not_reported:
  "report (request tight_client (scenario_env not_found_slow_body None) ''/test-endpoint'' no_options) =
     (Inl (APIError (JStr ''Unknown error'') 404 (JStr ''PARSE_ERROR'')
             ''req_1700000000000_k3j9x2m1q'' None),
      [404], [404], [Inl 0], [0], [], 100)"
  by (simp add: run_eval scenario_defs not_found_slow_body_def)

subsection \<open>Cancellation\<close>

lemma catch_block_AbortError:
  "error_name e = ''AbortError'' \<Longrightarrow>
     catch_block cx a e r = Throw (timeout_error cx) (r\<lparr> lastError := Some e, retryCountVar := a \<rparr>)"
  by (cases e) (simp_all add: catch_block_def Let_def)

text \<open>An attempt that misses the abort ends the call in the timeout error.\<close>

lemma attempt_loop_missed:
  assumes "a \<le> cx_retryAttempts cx" and "missed cx (fetch_call_of cx a r)"
  shows "fst (attempt_loop cx a r) = Inl (timeout_error cx)"
proof -
  obtain res r' where tb: "try_block cx a r = (res, r')" by (cases "try_block cx a r")
  then obtain e where "res = Inl e" "error_name e = ''AbortError''"
    using try_block_missed [OF tb] assms(2) by auto
  then show ?thesis
    using assms(1) tb by (simp add: attempt_loop.simps [of cx a r] catch_block_AbortError)
qed

lemma attempt_loop_pending:
  assumes "a \<le> cx_retryAttempts cx" and "cx_abortAt cx < clock r + fst (cx_transport cx a)"
  shows "fst (attempt_loop cx a r) = Inl (timeout_error cx) \<and>
         clock (snd (attempt_loop cx a r)) = max (clock r) (cx_abortAt cx) \<and>
         calls (trace (snd (attempt_loop cx a r))) = calls (trace r) @ [fetch_call_of cx a r]"
  by (rule try_block_cases [of cx r a])
    (use assms in \<open>simp_all add: attempt_loop.simps [of cx a r] catch_block_abort calls_append\<close>)

lemma missed_earlier:
  assumes "t \<le> cx_abortAt cx" and "missed cx c"
  shows "missed (cx\<lparr> cx_abortAt := t \<rparr>) c"
  using assms by (auto simp: missed_def split: prod.splits fetch_outcome.splits)

lemma catch_block_abort_later: "catch_block (cx\<lparr> cx_abortAt := t \<rparr>) a e r = catch_block cx a e r"
  by (simp add: catch_block_def timeout_error_def Let_def)

text \<open>
  Leaving the \<open>try\<close> block with another error than the \<open>AbortError\<close>, or with a value,
  the clock has not passed the abort.
\<close>

lemma try_block_within:
  assumes "try_block cx a r = (res, r')"
  shows "clock r' \<le> cx_abortAt cx \<or> (\<exists>e. res = Inl e \<and> error_name e = ''AbortError'')"
  by (rule try_block_cases [of cx r a]) (use assms in \<open>auto simp: read_body_def\<close>)

text \<open>
  The signal is aborted at \<open>t\<close>, earlier than it was, while an iteration is in its \<open>try\<close>
  block or later. Then the abort is missed; or it falls into the reading of the body of
  an error response; or the \<open>try\<close> block is left by \<open>t\<close>, as it was left before.
\<close>

lemma try_block_abort_earlier:
  assumes tb: "try_block cx a r = (res, r')" and le: "t \<le> cx_abortAt cx"
  shows "missed (cx\<lparr> cx_abortAt := t \<rparr>) (fetch_call_of cx a r) \<or>
         (\<exists>c te s. trace r' = trace r @ [Attempt c te s] \<and> reading_error_body cx t (Attempt c te s)) \<or>
         try_block (cx\<lparr> cx_abortAt := t \<rparr>) a r = (res, r') \<and> clock r' \<le> t"
proof (cases "t = cx_abortAt cx")
  case True
  then have same: "cx\<lparr> cx_abortAt := t \<rparr> = cx" by simp
  show ?thesis
    using try_block_within [OF tb] try_block_missed [OF tb] tb True unfolding same by auto
next
  case False
  then have lt: "t < cx_abortAt cx" using le by simp
  let ?cx = "cx\<lparr> cx_abortAt := t \<rparr>"
  obtain latency outcome where tr: "cx_transport cx a = (latency, outcome)"
    by (cases "cx_transport cx a")
  have m: "missed ?cx (fetch_call_of cx a r) \<longleftrightarrow>
      t < clock r + latency \<or>
      (\<exists>resp. outcome = Responds resp \<and> resp_ok resp \<and> t < clock r + latency + resp_readTime resp)"
    using missed_fetch_call_of [of ?cx a r] tr by (simp add: fetch_call_of_def)
  show ?thesis
  proof (cases "t < clock r + latency")
    case True
    then show ?thesis using m by simp
  next
    case False
    then have na: "\<not> cx_abortAt cx < clock r + latency" using le by simp
    show ?thesis
    proof (cases outcome)
      case (Rejects msg)
      then have "try_block ?cx a r = try_block cx a r" "clock r' = clock r + latency"
        using False na tr tb
        by (auto simp: try_block_def fetch_call_of_def log_event_def Let_def)
      then show ?thesis using tb False by simp
    next
      case (Responds resp)
      show ?thesis
      proof (cases "t < clock r + latency + resp_readTime resp")
        case True
        show ?thesis
        proof (cases "resp_ok resp")
          case True
          then show ?thesis using m Responds \<open>t < clock r + latency + resp_readTime resp\<close> by simp
        next
          case nok: False
          have "trace r' = trace r @ [Attempt (fetch_call_of cx a r) (clock r + latency) (Response resp)]"
            using Responds na tr tb
            by (auto simp: try_block_def log_event_def Let_def split: prod.splits)
          moreover have "t < snd (read_body cx (clock r + latency) resp)"
            using True lt by (auto simp: read_body_def max_def)
          ultimately show ?thesis using nok False by auto
        qed
      next
        case late: False
        then have nb: "\<not> cx_abortAt cx < clock r + latency + resp_readTime resp" using le by simp
        have rb: "read_body ?cx (clock r + latency) resp = read_body cx (clock r + latency) resp"
          "snd (read_body cx (clock r + latency) resp) = clock r + latency + resp_readTime resp"
          using late nb by (simp_all add: read_body_def)
        have dc: "decode ?cx resp = decode cx resp"
          by (auto simp: decode_def fun_eq_iff split: body_read.splits)
        have ns: "new_sample ?cx = new_sample cx"
          by (simp add: new_sample_def fun_eq_iff)
        have "try_block ?cx a r = try_block cx a r"
          using Responds False na tr rb(1) dc ns
          by (simp add: try_block_def fetch_call_of_def Let_def)
        moreover have "clock r' = clock r + latency + resp_readTime resp"
          using Responds na tr tb rb(2)
          by (auto simp: try_block_def log_event_def Let_def split: prod.splits)
        ultimately show ?thesis using tb late by simp
      qed
    qed
  qed
qed

lemma attempt_loop_extends:
  "\<exists>ext. trace (snd (attempt_loop cx a r)) = trace r @ ext"
  using attempt_loop_on_time [of cx a r] by blast

text \<open>
  Aborting the signal earlier, at an instant before the call has settled that does not
  fall into the reading of the body of an error response, turns the outcome of the call
  into the timeout error.
\<close>

lemma attempt_loop_abort_earlier:
  assumes le: "t \<le> cx_abortAt cx"
  shows "clock r \<le> t \<longrightarrow> t < clock (snd (attempt_loop cx a r)) \<longrightarrow>
         (\<exists>ext. trace (snd (attempt_loop cx a r)) = trace r @ ext \<and>
                \<not> list_ex (reading_error_body cx t) ext) \<longrightarrow>
         fst (attempt_loop (cx\<lparr> cx_abortAt := t \<rparr>) a r) = Inl (timeout_error cx)"
proof (rule attempt_loop_rule [where Q = "\<lambda>a r x. clock r \<le> t \<longrightarrow> t < clock (snd x) \<longrightarrow>
         (\<exists>ext. trace (snd x) = trace r @ ext \<and> \<not> list_ex (reading_error_body cx t) ext) \<longrightarrow>
         fst (attempt_loop (cx\<lparr> cx_abortAt := t \<rparr>) a r) = Inl (timeout_error cx)"], goal_cases)
  case (1 a r d r')
  from try_block_abort_earlier [OF 1(2) le] show ?case
  proof (elim disjE)
    assume "missed (cx\<lparr> cx_abortAt := t \<rparr>) (fetch_call_of cx a r)"
    then show ?thesis
      using attempt_loop_missed [of a "cx\<lparr> cx_abortAt := t \<rparr>" r] 1(1)
      by (simp add: timeout_error_def fetch_call_of_def)
  next
    assume "\<exists>c te s. trace r' = trace r @ [Attempt c te s] \<and> reading_error_body cx t (Attempt c te s)"
    then show ?thesis by auto
  next
    assume "try_block (cx\<lparr> cx_abortAt := t \<rparr>) a r = (Inr d, r') \<and> clock r' \<le> t"
    then show ?thesis by simp
  qed
next
  case (2 a r e r' r'')
  note b = catch_block_Break [OF 2(3)]
  from try_block_abort_earlier [OF 2(2) le] show ?case
  proof (elim disjE)
    assume "missed (cx\<lparr> cx_abortAt := t \<rparr>) (fetch_call_of cx a r)"
    then show ?thesis
      using attempt_loop_missed [of a "cx\<lparr> cx_abortAt := t \<rparr>" r] 2(1)
      by (simp add: timeout_error_def fetch_call_of_def)
  next
    assume "\<exists>c te s. trace r' = trace r @ [Attempt c te s] \<and> reading_error_body cx t (Attempt c te s)"
    then show ?thesis using b by (auto simp: after_loop_run)
  next
    assume "try_block (cx\<lparr> cx_abortAt := t \<rparr>) a r = (Inl e, r') \<and> clock r' \<le> t"
    then show ?thesis using b by (simp add: after_loop_run)
  qed
next
  case (3 a r e r' e' r'')
  note th = catch_block_Throw [OF 3(3)]
  from try_block_abort_earlier [OF 3(2) le] show ?case
  proof (elim disjE)
    assume "missed (cx\<lparr> cx_abortAt := t \<rparr>) (fetch_call_of cx a r)"
    then show ?thesis
      using attempt_loop_missed [of a "cx\<lparr> cx_abortAt := t \<rparr>" r] 3(1)
      by (simp add: timeout_error_def fetch_call_of_def)
  next
    assume "\<exists>c te s. trace r' = trace r @ [Attempt c te s] \<and> reading_error_body cx t (Attempt c te s)"
    then show ?thesis using th by auto
  next
    assume "try_block (cx\<lparr> cx_abortAt := t \<rparr>) a r = (Inl e, r') \<and> clock r' \<le> t"
    then show ?thesis using th by simp
  qed
next
  case (4 a r e r' r'')
  note co = catch_block_Continue [OF 4(3)]
  from try_block_abort_earlier [OF 4(2) le] show ?case
  proof (elim disjE)
    assume "missed (cx\<lparr> cx_abortAt := t \<rparr>) (fetch_call_of cx a r)"
    then show ?thesis
      using attempt_loop_missed [of a "cx\<lparr> cx_abortAt := t \<rparr>" r] 4(1)
      by (simp add: timeout_error_def fetch_call_of_def)
  next
    assume w: "\<exists>c te s. trace r' = trace r @ [Attempt c te s] \<and> reading_error_body cx t (Attempt c te s)"
    obtain ext' where "trace (snd (attempt_loop cx (Suc a) r'')) = trace r'' @ ext'"
      using attempt_loop_extends by blast
    then show ?thesis using w co by auto
  next
    assume s: "try_block (cx\<lparr> cx_abortAt := t \<rparr>) a r = (Inl e, r') \<and> clock r' \<le> t"
    have same: "attempt_loop (cx\<lparr> cx_abortAt := t \<rparr>) a r =
        attempt_loop (cx\<lparr> cx_abortAt := t \<rparr>) (Suc a) r''"
      using 4(1,3) s
      by (simp add: attempt_loop.simps [of "cx\<lparr> cx_abortAt := t \<rparr>" a r] catch_block_abort_later)
    obtain ev where ev: "trace r' = trace r @ [ev]"
      using try_block_trace [OF 4(2)] by blast
    obtain ext' where ext': "trace (snd (attempt_loop cx (Suc a) r'')) = trace r'' @ ext'"
      using attempt_loop_extends by blast
    show ?thesis
    proof (intro impI)
      assume c: "clock r \<le> t" and fl: "t < clock (snd (attempt_loop cx (Suc a) r''))"
        and "\<exists>ext. trace (snd (attempt_loop cx (Suc a) r'')) = trace r @ ext \<and>
                \<not> list_ex (reading_error_body cx t) ext"
      then have nw: "\<not> list_ex (reading_error_body cx t) ext'"
        using ext' ev co by auto
      show "fst (attempt_loop (cx\<lparr> cx_abortAt := t \<rparr>) a r) = Inl (timeout_error cx)"
      proof (cases "clock r'' \<le> t")
        case True
        then show ?thesis using 4(4) same fl ext' nw by auto
      next
        case late: False
        then have "a < cx_retryAttempts cx" using co s by (auto split: if_splits)
        then have "Suc a \<le> cx_retryAttempts (cx\<lparr> cx_abortAt := t \<rparr>)" by simp
        moreover have "missed (cx\<lparr> cx_abortAt := t \<rparr>) (fetch_call_of (cx\<lparr> cx_abortAt := t \<rparr>) (Suc a) r'')"
          using late by (auto simp: missed_fetch_call_of)
        ultimately have "fst (attempt_loop (cx\<lparr> cx_abortAt := t \<rparr>) (Suc a) r'') =
            Inl (timeout_error (cx\<lparr> cx_abortAt := t \<rparr>))"
          using attempt_loop_missed [of "Suc a" "cx\<lparr> cx_abortAt := t \<rparr>" r''] by blast
        then show ?thesis using same by (simp add: timeout_error_def)
      qed
    qed
  qed
next
  case (5 a r)
  then show ?case by (simp add: after_loop_run)
qed

lemma request_ctx_cancel:
  assumes "env_cancelAt env = None" and "env_now env \<le> t"
  shows "request_ctx_of c (env\<lparr> env_cancelAt := Some t \<rparr>) endpoint options =
         (request_ctx_of c env endpoint options)
           \<lparr> cx_abortAt := min t (env_now env + setTimeout_delay (effective_timeout c options)) \<rparr>"
proof -
  have "getAuthToken (env\<lparr> env_cancelAt := Some t \<rparr>) = getAuthToken env"
    by (simp add: getAuthToken_def split: option.splits list.splits)
  then have "prepare_headers (env\<lparr> env_cancelAt := Some t \<rparr>) = prepare_headers env"
    by (simp add: prepare_headers_def fun_eq_iff Let_def)
  then show ?thesis
    using assms by (simp add: request_ctx_of_def Let_def abort_instant_def)
qed

text \<open>A call that ends after the abort ends in the timeout error.\<close>

lemma attempt_loop_overrun:
  "(a \<le> cx_retryAttempts cx \<or> clock r \<le> cx_abortAt cx) \<longrightarrow>
   cx_abortAt cx < clock (snd (attempt_loop cx a r)) \<longrightarrow>
   fst (attempt_loop cx a r) = Inl (timeout_error cx)"
proof (rule attempt_loop_rule [where Q = "\<lambda>a r x.
    (a \<le> cx_retryAttempts cx \<or> clock r \<le> cx_abortAt cx) \<longrightarrow>
    cx_abortAt cx < clock (snd x) \<longrightarrow> fst x = Inl (timeout_error cx)"], goal_cases)
  case (1 a r d r')
  then show ?case using try_block_within [OF 1(2)] by auto
next
  case (2 a r e r' r'')
  have "error_name e \<noteq> ''AbortError''"
    using catch_block_Break [OF 2(3)] by (cases e) auto
  then show ?case
    using try_block_within [OF 2(2)] catch_block_Break [OF 2(3)] by (auto simp: after_loop_run)
next
  case (3 a r e r' e' r'')
  then show ?case using catch_block_Throw [OF 3(3)] by simp
next
  case (4 a r e r' r'')
  note co = catch_block_Continue [OF 4(3)]
  have "clock r' \<le> cx_abortAt cx" using try_block_within [OF 4(2)] co by auto
  then have "Suc a \<le> cx_retryAttempts cx \<or> clock r'' \<le> cx_abortAt cx"
    using co 4(1) by (cases "a < cx_retryAttempts cx") auto
  then show ?case using 4(4) by blast
next
  case (5 a r)
  then show ?case by (simp add: after_loop_run)
qed

lemma request_cancelled:
  assumes nc: "env_cancelAt env = None" and st: "env_now env \<le> t"
    and fl: "t < clock (run_of c env endpoint options)"
    and nw: "\<not> list_ex (reading_error_body (request_ctx_of c env endpoint options) t)
                 (trace (run_of c env endpoint options))"
  shows "result_of c (env\<lparr> env_cancelAt := Some t \<rparr>) endpoint options =
         Inl (timeout_error (request_ctx_of c env endpoint options))"
proof -
  let ?cx = "request_ctx_of c env endpoint options"
  let ?T = "env_now env + setTimeout_delay (effective_timeout c options)"
  have a: "cx_abortAt ?cx = ?T" using nc by (simp add: abort_instant_def)
  have init: "initial_run c (env\<lparr> env_cancelAt := Some t \<rparr>) = initial_run c env"
    by (simp add: initial_run_def)
  show ?thesis
  proof (cases "t \<le> ?T")
    case True
    then have m: "min t ?T = t" by simp
    have "fst (attempt_loop (?cx\<lparr> cx_abortAt := t \<rparr>) 0 (initial_run c env)) = Inl (timeout_error ?cx)"
      using attempt_loop_abort_earlier [of t ?cx "initial_run c env" 0] True a st fl nw
      by (simp add: request_run initial_run_def)
    then show ?thesis
      by (simp add: request_result request_ctx_cancel [OF nc st] m init)
  next
    case False
    then have m: "min t ?T = ?T" by simp
    have same: "?cx\<lparr> cx_abortAt := ?T \<rparr> = ?cx" using a by simp
    have "cx_abortAt ?cx < clock (snd (attempt_loop ?cx 0 (initial_run c env)))"
      using False fl a by (simp add: request_run)
    then have "fst (attempt_loop ?cx 0 (initial_run c env)) = Inl (timeout_error ?cx)"
      using attempt_loop_overrun [of 0 ?cx "initial_run c env"] by simp
    then show ?thesis
      by (simp add: request_result request_ctx_cancel [OF nc st] m init same)
  qed
qed

lemma request_cancelled_while_pending:
  assumes nc: "env_cancelAt env = None" and st: "env_now env \<le> t"
    and fl: "t < env_now env + fst (env_transport env 0)"
  shows "clock (run_of c (env\<lparr> env_cancelAt := Some t \<rparr>) endpoint options) =
           min t (env_now env + setTimeout_delay (effective_timeout c options)) \<and>
         length (calls (trace (run_of c (env\<lparr> env_cancelAt := Some t \<rparr>) endpoint options))) = 1"
proof -
  let ?cx = "request_ctx_of c (env\<lparr> env_cancelAt := Some t \<rparr>) endpoint options"
  let ?r = "initial_run c (env\<lparr> env_cancelAt := Some t \<rparr>)"
  have "cx_abortAt ?cx < clock ?r + fst (cx_transport ?cx 0)"
    using st fl by (simp add: abort_instant_def initial_run_def)
  then show ?thesis
    using attempt_loop_pending [of 0 ?cx ?r] st
    by (simp add: request_run) (simp add: initial_run_def abort_instant_def)
qed

text \<open>
  C4, as the code has it. \<open>cancelAllRequests\<close> calls \<open>abort()\<close> on every registered
  controller, the one of a call that has been entered among them, and empties the
  registry. A call that is cancelled after it was entered and before it would have
  settled, while a transport call is pending, during the sleep between two attempts or
  while the body of an ok response is being read, that is, at an instant that does not
  fall into the reading of the body of an error response, rejects, and what its caller
  gets is the \<open>TimeoutError\<close> with the call's timeout setting: the client does not tell
  a cancellation from a timeout. When the first attempt is pending at the cancellation,
  the call rejects at that instant and makes no further attempt.
\<close>

theorem cancelled_request_rejects_with_timeout_error:
  "fst (cancelAllRequests c) = map snd (abortControllers c) \<and>
   abortControllers (snd (cancelAllRequests c)) = [] \<and>
   controllersMade c \<in> set (fst (cancelAllRequests (register (request_ctx_of c env endpoint options) c))) \<and>
   (env_cancelAt env = None \<and> env_now env \<le> t \<and> t < clock (run_of c env endpoint options) \<and>
    \<not> list_ex (reading_error_body (request_ctx_of c env endpoint options) t)
        (trace (run_of c env endpoint options)) \<longrightarrow>
    result_of c (env\<lparr> env_cancelAt := Some t \<rparr>) endpoint options =
      Inl (TimeoutError (''Request timeout after '' @ string_of_nat (effective_timeout c options) @ ''ms'')
             (effective_timeout c options))) \<and>
   (env_cancelAt env = None \<and> env_now env \<le> t \<and> t < env_now env + fst (env_transport env 0) \<longrightarrow>
    clock (run_of c (env\<lparr> env_cancelAt := Some t \<rparr>) endpoint options) =
      min t (env_now env + setTimeout_delay (effective_timeout c options)) \<and>
    length (calls (trace (run_of c (env\<lparr> env_cancelAt := Some t \<rparr>) endpoint options))) = 1)"
proof -
  have "controllersMade c \<in>
      snd ` set (AList.update (cx_requestId (request_ctx_of c env endpoint options))
                   (controllersMade c) (abortControllers c))"
    using map_of_eq_Some_iff [of "AList.update (cx_requestId (request_ctx_of c env endpoint options))
                   (controllersMade c) (abortControllers c)"]
    by (metis (no_types, lifting) image_eqI map_of_SomeD snd_conv update_Some_unfold update_conv')
  then have "controllersMade c \<in>
      set (fst (cancelAllRequests (register (request_ctx_of c env endpoint options) c)))"
    by (simp add: cancelAllRequests_def register_def)
  then show ?thesis
    using request_cancelled [of env t c endpoint options]
      request_cancelled_while_pending [of env t c endpoint options]
    by (simp add: cancelAllRequests_def timeout_error_def)
qed

text \<open>
  The response is due after 1000 ms and \<open>cancelAllRequests\<close> is called 5 ms into the
  call: the call rejects at 5 ms with a \<open>TimeoutError\<close>.
\<close>

theorem cancelled_request_rejects_with_timeout_error_witness:
  "result_of scenario_client (scenario_env slow_answer (Some 5)) ''/test-endpoint'' no_options =
     Inl (TimeoutError (''Request timeout after '' @ string_of_nat 5000 @ ''ms'') 5000) \<and>
   clock (run_of scenario_client (scenario_env slow_answer (Some 5)) ''/test-endpoint'' no_options) = 5 \<and>
   length (calls (trace (run_of scenario_client (scenario_env slow_answer (Some 5))
     ''/test-endpoint'' no_options))) = 1"
proof -
  have e: "scenario_env slow_answer (Some 5) = (scenario_env slow_answer None)\<lparr> env_cancelAt := Some 5 \<rparr>"
    "env_cancelAt (scenario_env slow_answer None) = None"
    "env_now (scenario_env slow_answer None) = 0"
    "fst (env_transport (scenario_env slow_answer None) 0) = 1000"
    "effective_timeout scenario_client no_options = 5000"
    by (simp_all add: scenario_defs slow_answer_def effective_timeout_def)
  have f: "report (request scenario_client (scenario_env slow_answer None) ''/test-endpoint'' no_options) =
      (Inr ok_body, [200], [200], [Inl 0], [0], [], 1000)"
    by (simp add: run_eval scenario_defs slow_answer_def)
  then have g: "clock (run_of scenario_client (scenario_env slow_answer None) ''/test-endpoint'' no_options) = 1000"
    by (simp add: report_request)
  have w: "\<not> list_ex (reading_error_body
        (request_ctx_of scenario_client (scenario_env slow_answer None) ''/test-endpoint'' no_options) 5)
      (trace (run_of scenario_client (scenario_env slow_answer None) ''/test-endpoint'' no_options))"
    by (simp add: run_eval scenario_defs slow_answer_def)
  have d: "setTimeout_delay 5000 = 5000" by (simp add: setTimeout_delay_def)
  show ?thesis
    using cancelled_request_rejects_with_timeout_error
      [of scenario_client "scenario_env slow_answer None" "''/test-endpoint''" no_options 5] w
    unfolding e(1) by (simp add: e(2-) g d)
qed

text \<open>
  The report of that call: one transport call at 0 ms, aborted at 5 ms, and the error the
  caller gets is the \<open>TimeoutError\<close>, not a \<open>NetworkError\<close>.
\<close>

theorem cancelled_request_is_not_a_transport_error:
  "report (request scenario_client (scenario_env slow_answer (Some 5)) ''/test-endpoint'' no_options) =
     (Inl (TimeoutError ''Request timeout after 5000ms'' 5000), [], [], [Inl 0], [0], [5], 5)"
  by (simp add: run_eval scenario_defs slow_answer_def)

text \<open>
  A cancellation that falls into the reading of the body of an error response is taken by
  the \<open>catch\<close> of \<open>parseErrorResponse\<close>. A response with status 404 arrives after 60 ms,
  its body takes 50 ms to read, and \<open>cancelAllRequests\<close> is called at 70 ms: the call
  ends at 70 ms in the \<open>APIError\<close> made from the substitute object.
\<close>

lemma cancel_during_error_body_is_not_reported:
  "report (request scenario_client (scenario_env not_found_slow_body (Some 70)) ''/test-endpoint'' no_options) =
     (Inl (APIError (JStr ''Unknown error'') 404 (JStr ''PARSE_ERROR'')
             ''req_1700000000000_k3j9x2m1q'' None),
      [404], [404], [Inl 0], [0], [], 70)"
  by (simp add: run_eval scenario_defs not_found_slow_body_def)

subsection \<open>No retry after a 401, 403 or 404\<close>

lemma denied_http_error:
  assumes "denied (Attempt c t (Response resp))"
  shows "decode cx resp (fst (read_body cx t' resp)) =
           Inl (http_error (cx_requestId cx) resp (fst (read_body cx t' resp))) \<and>
         is_APIError (http_error rid resp (fst (read_body cx t' resp))) \<and>
         error_status (http_error rid resp (fst (read_body cx t' resp))) = Some (resp_status resp)"
  using assms
  by (auto simp: decode_def http_error_def parseErrorResponse_def read_body_def Let_def
      split: option.splits)

lemma catch_block_denied:
  assumes "is_APIError e" and "error_status e \<in> {Some 401, Some 403, Some 404}"
  shows "catch_block cx a e r = Break (r\<lparr> lastError := Some e, retryCountVar := a \<rparr>)"
  using assms by (simp add: catch_block_def Let_def)

lemma after_loop_APIError:
  "is_APIError e \<Longrightarrow> lastError r = Some e \<Longrightarrow> after_loop cx r = (Inl e, r)"
  by (cases e) (simp_all add: after_loop_def)

text \<open>
  The error made from the response of an event, and the instant at which the read of
  its body ends.
\<close>

lemma attempt_loop_denied:
  "\<exists>ext. trace (snd (attempt_loop cx a r)) = trace r @ ext \<and>
     \<not> list_ex denied (butlast ext) \<and>
     (ext \<noteq> [] \<and> denied (last ext) \<longrightarrow>
        fst (attempt_loop cx a r) =
          Inl (http_error (cx_requestId cx) (the (response_of (last ext)))
                 (fst (read_body cx (the (settled_at (last ext))) (the (response_of (last ext)))))) \<and>
        clock (snd (attempt_loop cx a r)) =
          snd (read_body cx (the (settled_at (last ext))) (the (response_of (last ext)))) \<and>
        \<not> cx_abortAt cx < the (settled_at (last ext)))"
proof (rule attempt_loop_rule [where Q = "\<lambda>a r x.
   \<exists>ext. trace (snd x) = trace r @ ext \<and>
     \<not> list_ex denied (butlast ext) \<and>
     (ext \<noteq> [] \<and> denied (last ext) \<longrightarrow>
        fst x =
          Inl (http_error (cx_requestId cx) (the (response_of (last ext)))
                 (fst (read_body cx (the (settled_at (last ext))) (the (response_of (last ext)))))) \<and>
        clock (snd x) =
          snd (read_body cx (the (settled_at (last ext))) (the (response_of (last ext)))) \<and>
        \<not> cx_abortAt cx < the (settled_at (last ext)))"], goal_cases)
  case (1 a r d r')
  obtain c t s where ev: "trace r' = trace r @ [Attempt c t s]" "clock r' = left_at cx t s"
    "\<forall>resp. s = Response resp \<longrightarrow>
       Inr d = decode cx resp (fst (read_body cx t resp)) \<and> \<not> cx_abortAt cx < t"
    using try_block_event [OF 1(2)] by blast
  have "\<not> denied (Attempt c t s)"
  proof
    assume dn: "denied (Attempt c t s)"
    then obtain resp where "s = Response resp" by (cases s) auto
    then show False using ev(3) denied_http_error [of c t resp cx t] dn by auto
  qed
  then show ?case using ev by (intro exI [of _ "[Attempt c t s]"]) simp
next
  case (2 a r e r' r'')
  obtain c t s where ev: "trace r' = trace r @ [Attempt c t s]" "clock r' = left_at cx t s"
    "\<forall>resp. s = Response resp \<longrightarrow>
       Inl e = decode cx resp (fst (read_body cx t resp)) \<and> \<not> cx_abortAt cx < t"
    using try_block_event [OF 2(2)] by blast
  note b = catch_block_Break [OF 2(3)]
  have al: "after_loop cx r'' = (Inl e, r'')"
    using b by (simp add: after_loop_APIError)
  have "denied (Attempt c t s) \<longrightarrow>
      e = http_error (cx_requestId cx) (the (response_of (Attempt c t s)))
            (fst (read_body cx t (the (response_of (Attempt c t s))))) \<and>
      clock r' = snd (read_body cx t (the (response_of (Attempt c t s)))) \<and>
      \<not> cx_abortAt cx < t"
  proof
    assume dn: "denied (Attempt c t s)"
    then obtain resp where s: "s = Response resp" by (cases s) auto
    then show "e = http_error (cx_requestId cx) (the (response_of (Attempt c t s)))
            (fst (read_body cx t (the (response_of (Attempt c t s))))) \<and>
      clock r' = snd (read_body cx t (the (response_of (Attempt c t s)))) \<and>
      \<not> cx_abortAt cx < t"
      using ev(2,3) denied_http_error [of c t resp cx t] dn by auto
  qed
  then show ?case using ev b al by (intro exI [of _ "[Attempt c t s]"]) simp
next
  case (3 a r e r' e' r'')
  obtain c t s where ev: "trace r' = trace r @ [Attempt c t s]" "clock r' = left_at cx t s"
    "\<forall>resp. s = Response resp \<longrightarrow>
       Inl e = decode cx resp (fst (read_body cx t resp)) \<and> \<not> cx_abortAt cx < t"
    using try_block_event [OF 3(2)] by blast
  note th = catch_block_Throw [OF 3(3)]
  have "\<not> denied (Attempt c t s)"
  proof
    assume dn: "denied (Attempt c t s)"
    then obtain resp where "s = Response resp" by (cases s) auto
    then have "is_APIError e" using ev(3) denied_http_error [of c t resp cx t] dn by auto
    then show False using th by (cases e) auto
  qed
  then show ?case using ev th by (intro exI [of _ "[Attempt c t s]"]) simp
next
  case (4 a r e r' r'')
  obtain c t s where ev: "trace r' = trace r @ [Attempt c t s]" "clock r' = left_at cx t s"
    "\<forall>resp. s = Response resp \<longrightarrow>
       Inl e = decode cx resp (fst (read_body cx t resp)) \<and> \<not> cx_abortAt cx < t"
    using try_block_event [OF 4(2)] by blast
  note co = catch_block_Continue [OF 4(3)]
  have nd: "\<not> denied (Attempt c t s)"
  proof
    assume dn: "denied (Attempt c t s)"
    then obtain resp where s: "s = Response resp" by (cases s) auto
    then have "is_APIError e \<and> error_status e \<in> {Some 401, Some 403, Some 404}"
      using ev(3) denied_http_error [of c t resp cx t] dn by auto
    then show False using catch_block_denied [of e cx a r'] 4(3) by simp
  qed
  obtain ext where ext: "trace (snd (attempt_loop cx (Suc a) r'')) = trace r'' @ ext"
    "\<not> list_ex denied (butlast ext)"
    "ext \<noteq> [] \<and> denied (last ext) \<longrightarrow>
        fst (attempt_loop cx (Suc a) r'') =
          Inl (http_error (cx_requestId cx) (the (response_of (last ext)))
                 (fst (read_body cx (the (settled_at (last ext))) (the (response_of (last ext)))))) \<and>
        clock (snd (attempt_loop cx (Suc a) r'')) =
          snd (read_body cx (the (settled_at (last ext))) (the (response_of (last ext)))) \<and>
        \<not> cx_abortAt cx < the (settled_at (last ext))"
    using 4(4) by blast
  let ?sl = "if a < cx_retryAttempts cx then [Slept (cx_retryDelay cx * 2 ^ a)] else []"
  let ?pre = "Attempt c t s # ?sl"
  have tr: "trace (snd (attempt_loop cx (Suc a) r'')) = trace r @ (?pre @ ext)"
    using ext(1) ev(1) co by simp
  have pre: "\<not> list_ex denied ?pre" using nd by simp
  show ?case
  proof (cases "ext = []")
    case True
    then have "\<not> list_ex denied (butlast (?pre @ ext))"
      using pre by (auto simp: list_ex_iff dest: in_set_butlastD)
    moreover have "\<not> denied (last (?pre @ ext))" using True nd by simp
    ultimately show ?thesis using tr by (intro exI [of _ "?pre @ ext"]) simp
  next
    case False
    then have "butlast (?pre @ ext) = ?pre @ butlast ext" "last (?pre @ ext) = last ext"
      by (simp_all add: butlast_append)
    then show ?thesis
      using tr pre ext(2,3) False
      by (intro exI [of _ "?pre @ ext"]) (auto simp: list_ex_iff)
  qed
next
  case (5 a r)
  then show ?case by (simp add: after_loop_run)
qed

lemma request_denied:
  "\<not> list_ex denied (butlast (trace (run_of c env endpoint options))) \<and>
   (denied (last (trace (run_of c env endpoint options))) \<longrightarrow>
      result_of c env endpoint options =
        Inl (http_error (generateRequestId (env_dateNow env) (env_random env 0))
               (the (response_of (last (trace (run_of c env endpoint options)))))
               (fst (read_body (request_ctx_of c env endpoint options)
                       (the (settled_at (last (trace (run_of c env endpoint options)))))
                       (the (response_of (last (trace (run_of c env endpoint options)))))))) \<and>
      clock (run_of c env endpoint options) =
        snd (read_body (request_ctx_of c env endpoint options)
               (the (settled_at (last (trace (run_of c env endpoint options)))))
               (the (response_of (last (trace (run_of c env endpoint options)))))) \<and>
      \<not> cx_abortAt (request_ctx_of c env endpoint options) <
          the (settled_at (last (trace (run_of c env endpoint options)))))"
proof -
  obtain ext where ext:
    "trace (run_of c env endpoint options) = ext"
    "\<not> list_ex denied (butlast ext)"
    "ext \<noteq> [] \<and> denied (last ext) \<longrightarrow>
       result_of c env endpoint options =
         Inl (http_error (cx_requestId (request_ctx_of c env endpoint options))
                (the (response_of (last ext)))
                (fst (read_body (request_ctx_of c env endpoint options)
                        (the (settled_at (last ext))) (the (response_of (last ext)))))) \<and>
       clock (run_of c env endpoint options) =
         snd (read_body (request_ctx_of c env endpoint options)
                (the (settled_at (last ext))) (the (response_of (last ext)))) \<and>
       \<not> cx_abortAt (request_ctx_of c env endpoint options) < the (settled_at (last ext))"
    using attempt_loop_denied [of "request_ctx_of c env endpoint options" 0 "initial_run c env"]
    by (auto simp: request_run request_result initial_run_def simp del: cx_simps(8))
  have "ext \<noteq> []"
    using request_calls_nonempty [of c env endpoint options] ext(1) by auto
  then show ?thesis using ext by simp
qed

lemma http_error_shape:
  assumes "is_APIError (http_error rid resp b)" and "error_status (http_error rid resp b) = Some st"
  shows "\<exists>m code d. http_error rid resp b = APIError m st code rid d"
  using assms by (auto simp: http_error_def Let_def split: if_splits)

lemma denied_error:
  assumes "denied ev"
  shows "is_APIError (http_error rid (the (response_of ev)) (fst (read_body cx t (the (response_of ev))))) \<and>
         error_status (http_error rid (the (response_of ev)) (fst (read_body cx t (the (response_of ev))))) =
           Some (resp_status (the (response_of ev)))"
proof -
  obtain c te resp where "ev = Attempt c te (Response resp)"
    using assms by (cases ev rule: denied.cases) auto
  then show ?thesis using assms denied_http_error [of c te resp cx t rid] by simp
qed

lemma read_body_at_once:
  assumes "resp_readTime resp = 0" and "\<not> cx_abortAt cx < t"
  shows "read_body cx t resp = ((case resp_body resp of Some j \<Rightarrow> Parsed j | None \<Rightarrow> Malformed), t)"
  using assms by (simp add: read_body_def)

lemma first_response_401_403_404:
  assumes st: "resp_status resp \<in> {401, 403, 404}" and nok: "\<not> resp_ok resp"
    and body: "resp_body resp \<noteq> Some JNull"
    and tr: "snd (env_transport env 0) = Responds resp"
    and intime: "\<not> abort_instant (env_now env) (effective_timeout c options) (env_cancelAt env)
                    < env_now env + fst (env_transport env 0)"
  shows "length (calls (trace (run_of c env endpoint options))) = 1 \<and>
         sleeps (trace (run_of c env endpoint options)) = [] \<and>
         clock (run_of c env endpoint options) =
           snd (read_body (request_ctx_of c env endpoint options)
                  (env_now env + fst (env_transport env 0)) resp) \<and>
         result_of c env endpoint options =
           Inl (http_error (generateRequestId (env_dateNow env) (env_random env 0)) resp
                  (fst (read_body (request_ctx_of c env endpoint options)
                          (env_now env + fst (env_transport env 0)) resp))) \<and>
         is_APIError (http_error (generateRequestId (env_dateNow env) (env_random env 0)) resp
                  (fst (read_body (request_ctx_of c env endpoint options)
                          (env_now env + fst (env_transport env 0)) resp))) \<and>
         error_status (http_error (generateRequestId (env_dateNow env) (env_random env 0)) resp
                  (fst (read_body (request_ctx_of c env endpoint options)
                          (env_now env + fst (env_transport env 0)) resp))) =
           Some (resp_status resp)"
proof -
  let ?cx = "request_ctx_of c env endpoint options"
  let ?r = "initial_run c env"
  let ?b = "fst (read_body ?cx (env_now env + fst (env_transport env 0)) resp)"
  let ?e = "http_error (generateRequestId (env_dateNow env) (env_random env 0)) resp ?b"
  have dn: "denied (Attempt (fetch_call_of ?cx 0 ?r) 0 (Response resp))"
    using st nok body by simp
  have e: "is_APIError ?e" "error_status ?e = Some (resp_status resp)"
    using denied_http_error [OF dn, of ?cx] by simp_all
  have d: "decode ?cx resp ?b = Inl ?e" using nok by (simp add: decode_def)
  obtain r' where tb: "try_block ?cx 0 ?r = (Inl ?e, r')"
    and r': "clock r' = snd (read_body ?cx (env_now env + fst (env_transport env 0)) resp)"
      "calls (trace r') = [fetch_call_of ?cx 0 ?r]" "sleeps (trace r') = []"
    by (rule try_block_cases [of ?cx ?r 0])
      (use tr intime d in \<open>auto simp: initial_run_def calls_append sleeps_append\<close>)
  have cb: "catch_block ?cx 0 ?e r' = Break (r'\<lparr> lastError := Some ?e, retryCountVar := 0 \<rparr>)"
    using e st by (auto simp: catch_block_def Let_def)
  have al: "after_loop ?cx (r'\<lparr> lastError := Some ?e, retryCountVar := 0 \<rparr>) =
      (Inl ?e, r'\<lparr> lastError := Some ?e, retryCountVar := 0 \<rparr>)"
    using e(1) by (cases ?e) (simp_all add: after_loop_def)
  have "attempt_loop ?cx 0 ?r = (Inl ?e, r'\<lparr> lastError := Some ?e, retryCountVar := 0 \<rparr>)"
    using tb cb al by (simp add: attempt_loop.simps [of ?cx 0 ?r])
  then show ?thesis using r' e by (simp add: request_run request_result)
qed

text \<open>
  C6, as the code has it. A response with status 401, 403 or 404, with a body other than
  the JSON value \<open>null\<close>, ends the call on the spot: it is the last event of the run, no
  delay and no transport call follows it, and the caller gets the \<open>APIError\<close> made from
  that response, with its status, at the instant the read of its body ends, which is the
  instant the response arrived when the body is read in no time. When it answers
  the first attempt, the transport has been invoked exactly once. When it answers a
  retry, the attempts before it have been made.
\<close>

theorem no_attempt_after_401_403_404:
  "\<not> list_ex denied (butlast (trace (run_of c env endpoint options))) \<and>
   (denied (last (trace (run_of c env endpoint options))) \<longrightarrow>
      result_of c env endpoint options =
        Inl (http_error (generateRequestId (env_dateNow env) (env_random env 0))
               (the (response_of (last (trace (run_of c env endpoint options)))))
               (fst (read_body (request_ctx_of c env endpoint options)
                       (the (settled_at (last (trace (run_of c env endpoint options)))))
                       (the (response_of (last (trace (run_of c env endpoint options)))))))) \<and>
      (\<exists>m code d.
         result_of c env endpoint options =
           Inl (APIError m (resp_status (the (response_of (last (trace (run_of c env endpoint options))))))
                  code (generateRequestId (env_dateNow env) (env_random env 0)) d)) \<and>
      clock (run_of c env endpoint options) =
        snd (read_body (request_ctx_of c env endpoint options)
               (the (settled_at (last (trace (run_of c env endpoint options)))))
               (the (response_of (last (trace (run_of c env endpoint options)))))) \<and>
      (resp_readTime (the (response_of (last (trace (run_of c env endpoint options))))) = 0 \<longrightarrow>
         settled_at (last (trace (run_of c env endpoint options))) =
           Some (clock (run_of c env endpoint options)))) \<and>
   (resp_status resp \<in> {401, 403, 404} \<and> \<not> resp_ok resp \<and> resp_body resp \<noteq> Some JNull \<and>
    snd (env_transport env 0) = Responds resp \<and>
    \<not> abort_instant (env_now env) (effective_timeout c options) (env_cancelAt env)
        < env_now env + fst (env_transport env 0) \<longrightarrow>
      length (calls (trace (run_of c env endpoint options))) = 1 \<and>
      sleeps (trace (run_of c env endpoint options)) = [] \<and>
      clock (run_of c env endpoint options) =
        snd (read_body (request_ctx_of c env endpoint options)
               (env_now env + fst (env_transport env 0)) resp) \<and>
      result_of c env endpoint options =
        Inl (http_error (generateRequestId (env_dateNow env) (env_random env 0)) resp
               (fst (read_body (request_ctx_of c env endpoint options)
                       (env_now env + fst (env_transport env 0)) resp))) \<and>
      is_APIError (http_error (generateRequestId (env_dateNow env) (env_random env 0)) resp
               (fst (read_body (request_ctx_of c env endpoint options)
                       (env_now env + fst (env_transport env 0)) resp))) \<and>
      error_status (http_error (generateRequestId (env_dateNow env) (env_random env 0)) resp
               (fst (read_body (request_ctx_of c env endpoint options)
                       (env_now env + fst (env_transport env 0)) resp))) =
        Some (resp_status resp) \<and>
      (resp_readTime resp = 0 \<longrightarrow>
         clock (run_of c env endpoint options) = env_now env + fst (env_transport env 0) \<and>
         result_of c env endpoint options =
           Inl (http_error (generateRequestId (env_dateNow env) (env_random env 0)) resp
                  (case resp_body resp of Some j \<Rightarrow> Parsed j | None \<Rightarrow> Malformed))))"
proof -
  let ?tr = "trace (run_of c env endpoint options)"
  let ?cx = "request_ctx_of c env endpoint options"
  let ?rid = "generateRequestId (env_dateNow env) (env_random env 0)"
  have nd: "\<not> list_ex denied (butlast ?tr)"
    using request_denied [of c env endpoint options] by blast
  have last: "result_of c env endpoint options =
        Inl (http_error ?rid (the (response_of (last ?tr)))
               (fst (read_body ?cx (the (settled_at (last ?tr))) (the (response_of (last ?tr)))))) \<and>
      (\<exists>m code d.
         result_of c env endpoint options =
           Inl (APIError m (resp_status (the (response_of (last ?tr)))) code ?rid d)) \<and>
      clock (run_of c env endpoint options) =
        snd (read_body ?cx (the (settled_at (last ?tr))) (the (response_of (last ?tr)))) \<and>
      (resp_readTime (the (response_of (last ?tr))) = 0 \<longrightarrow>
         settled_at (last ?tr) = Some (clock (run_of c env endpoint options)))"
    if dn: "denied (last ?tr)"
  proof -
    let ?resp = "the (response_of (last ?tr))"
    let ?t = "the (settled_at (last ?tr))"
    note rd = request_denied [of c env endpoint options, THEN conjunct2, rule_format, OF dn]
    have res: "result_of c env endpoint options =
        Inl (http_error ?rid ?resp (fst (read_body ?cx ?t ?resp)))"
      and cl: "clock (run_of c env endpoint options) = snd (read_body ?cx ?t ?resp)"
      and na: "\<not> cx_abortAt ?cx < ?t"
      using rd by blast+
    have "\<exists>m code d. http_error ?rid ?resp (fst (read_body ?cx ?t ?resp)) =
        APIError m (resp_status ?resp) code ?rid d"
      using denied_error [OF dn, of ?rid ?cx ?t] http_error_shape by blast
    then have sh: "\<exists>m code d. result_of c env endpoint options =
        Inl (APIError m (resp_status ?resp) code ?rid d)"
      using res by simp
    obtain ca te s where ev: "last ?tr = Attempt ca te s"
      using dn by (cases "last ?tr" rule: denied.cases) auto
    have "clock (run_of c env endpoint options) = ?t" if "resp_readTime ?resp = 0"
      using cl read_body_at_once [OF that na] by simp
    then have "resp_readTime ?resp = 0 \<longrightarrow>
        settled_at (last ?tr) = Some (clock (run_of c env endpoint options))"
      using ev by simp
    then show ?thesis using res sh cl by blast
  qed
  have first: "length (calls ?tr) = 1 \<and>
      sleeps ?tr = [] \<and>
      clock (run_of c env endpoint options) =
        snd (read_body ?cx (env_now env + fst (env_transport env 0)) resp) \<and>
      result_of c env endpoint options =
        Inl (http_error ?rid resp (fst (read_body ?cx (env_now env + fst (env_transport env 0)) resp))) \<and>
      is_APIError (http_error ?rid resp (fst (read_body ?cx (env_now env + fst (env_transport env 0)) resp))) \<and>
      error_status (http_error ?rid resp (fst (read_body ?cx (env_now env + fst (env_transport env 0)) resp))) =
        Some (resp_status resp) \<and>
      (resp_readTime resp = 0 \<longrightarrow>
         clock (run_of c env endpoint options) = env_now env + fst (env_transport env 0) \<and>
         result_of c env endpoint options =
           Inl (http_error ?rid resp (case resp_body resp of Some j \<Rightarrow> Parsed j | None \<Rightarrow> Malformed)))"
    if h: "resp_status resp \<in> {401, 403, 404} \<and> \<not> resp_ok resp \<and> resp_body resp \<noteq> Some JNull \<and>
      snd (env_transport env 0) = Responds resp \<and>
      \<not> abort_instant (env_now env) (effective_timeout c options) (env_cancelAt env)
          < env_now env + fst (env_transport env 0)"
  proof -
    note f = first_response_401_403_404 [of resp env c options endpoint]
    have na: "\<not> cx_abortAt ?cx < env_now env + fst (env_transport env 0)"
      using h by simp
    have "resp_readTime resp = 0 \<longrightarrow>
         clock (run_of c env endpoint options) = env_now env + fst (env_transport env 0) \<and>
         result_of c env endpoint options =
           Inl (http_error ?rid resp (case resp_body resp of Some j \<Rightarrow> Parsed j | None \<Rightarrow> Malformed))"
      using f h read_body_at_once [OF _ na] by simp
    then show ?thesis using f h by blast
  qed
  show ?thesis using nd last first by blast
qed

text \<open>The first attempt is answered with status 404: one transport call, an \<open>APIError\<close>.\<close>

theorem no_attempt_after_401_403_404_witness:
  "length (calls (trace (run_of scenario_client (scenario_env not_found None)
      ''/test-endpoint'' no_options))) = 1 \<and>
   sleeps (trace (run_of scenario_client (scenario_env not_found None)
      ''/test-endpoint'' no_options)) = [] \<and>
   clock (run_of scenario_client (scenario_env not_found None) ''/test-endpoint'' no_options) = 10 \<and>
   result_of scenario_client (scenario_env not_found None) ''/test-endpoint'' no_options =
     Inl (APIError (JStr ''Not found'') 404 (JStr ''NOT_FOUND'') ''req_1700000000000_k3j9x2m1q'' None)"
proof -
  let ?resp = "error_response 404
      (Some (JObj [(''message'', JStr ''Not found''), (''code'', JStr ''NOT_FOUND'')]))"
  have h: "resp_status ?resp \<in> {401, 403, 404} \<and> \<not> resp_ok ?resp \<and> resp_body ?resp \<noteq> Some JNull \<and>
      snd (env_transport (scenario_env not_found None) 0) = Responds ?resp \<and>
      \<not> abort_instant (env_now (scenario_env not_found None))
           (effective_timeout scenario_client no_options) (env_cancelAt (scenario_env not_found None))
         < env_now (scenario_env not_found None) + fst (env_transport (scenario_env not_found None) 0)"
    by (simp add: scenario_defs not_found_def abort_instant_def effective_timeout_def
        setTimeout_delay_def)
  have z: "resp_readTime ?resp = 0"
    by (simp add: scenario_defs)
  have e: "http_error (generateRequestId (env_dateNow (scenario_env not_found None))
             (env_random (scenario_env not_found None) 0)) ?resp
             (case resp_body ?resp of Some j \<Rightarrow> Parsed j | None \<Rightarrow> Malformed) =
      APIError (JStr ''Not found'') 404 (JStr ''NOT_FOUND'') ''req_1700000000000_k3j9x2m1q'' None"
    by (simp add: scenario_defs http_error_def parseErrorResponse_def js_or_def
        generateRequestId_def string_of_nat.simps Let_def)
  have t: "env_now (scenario_env not_found None) + fst (env_transport (scenario_env not_found None) 0) = 10"
    by (simp add: scenario_defs not_found_def)
  have "length (calls (trace (run_of scenario_client (scenario_env not_found None)
      ''/test-endpoint'' no_options))) = 1 \<and>
    sleeps (trace (run_of scenario_client (scenario_env not_found None)
      ''/test-endpoint'' no_options)) = [] \<and>
    (resp_readTime ?resp = 0 \<longrightarrow>
       clock (run_of scenario_client (scenario_env not_found None) ''/test-endpoint'' no_options) =
         env_now (scenario_env not_found None) + fst (env_transport (scenario_env not_found None) 0) \<and>
       result_of scenario_client (scenario_env not_found None) ''/test-endpoint'' no_options =
         Inl (http_error (generateRequestId (env_dateNow (scenario_env not_found None))
                (env_random (scenario_env not_found None) 0)) ?resp
                (case resp_body ?resp of Some j \<Rightarrow> Parsed j | None \<Rightarrow> Malformed)))"
    using no_attempt_after_401_403_404
      [of scenario_client "scenario_env not_found None" "''/test-endpoint''" no_options ?resp] h
    by blast
  then show ?thesis
    using z unfolding e t by blast
qed

text \<open>
  The first attempt is answered with status 500 and the retry with status 404: the call
  has received a 404, and the transport has been invoked twice.
\<close>

theorem not_found_after_a_retry:
  "report (request scenario_client (scenario_env server_error_then_not_found None)
      ''/test-endpoint'' no_options) =
     (Inl (APIError (JStr ''Not found'') 404 (JStr ''NOT_FOUND'') ''req_1700000000000_k3j9x2m1q'' None),
      [500, 404], [500, 404], [Inl 0, Inr 100, Inl 1], [0, 110], [], 120)"
  by (simp add: run_eval scenario_defs server_error_then_not_found_def)

text \<open>
  A response with status 404 whose body is the JSON value \<open>null\<close>: reading the message
  of the decoded body throws a \<open>TypeError\<close>, which the loop retries like a network
  failure. The transport is invoked three times and the caller gets a \<open>NetworkError\<close>.
\<close>

lemma not_found_with_null_body_is_retried:
  "report (request scenario_client (scenario_env not_found_null None) ''/test-endpoint'' no_options) =
     (Inl (NetworkError ''Network request failed after 3 attempts''
             (Some (JsError ''TypeError'' ''Cannot read properties of null''))),
      [404, 404, 404], [404, 404, 404], [Inl 0, Inr 100, Inl 1, Inr 200, Inl 2],
      [0, 110, 320], [], 330)"
  by (simp add: run_eval scenario_defs not_found_null_def)



section \<open>Properties of the event-stream client\<close>

subsection \<open>Messages\<close>

lemma invalid_when_field_missing:
  "jfield message ''type'' = None \<or> jfield message ''timestamp'' = None \<or>
   jfield message ''requestId'' = None \<Longrightarrow> \<not> isValidMessage message"
  by (auto simp: isValidMessage_def)

text \<open>
  C7. A parsed message that lacks the \<open>type\<close>, the \<open>timestamp\<close> or the \<open>requestId\<close>
  property (or that is not an object at all) is not valid. \<open>handleMessage\<close> then writes one
  warning to the console and does nothing else: \<open>messagesReceived\<close> and the other
  metrics, the latency samples, the query cache, the user callbacks and the socket are
  left as they were.
\<close>

theorem invalid_message_is_dropped:
  "jfield message ''type'' = None \<or> jfield message ''timestamp'' = None \<or>
   jfield message ''requestId'' = None \<longrightarrow>
     handleMessage env (Some message) w =
       w\<lparr> console := console w @ [ConsoleWarn ''Invalid WebSocket message received:'' message] \<rparr> \<and>
     messagesReceived (ws_metrics (handleMessage env (Some message) w)) = messagesReceived (ws_metrics w) \<and>
     ws_metrics (handleMessage env (Some message) w) = ws_metrics w \<and>
     latencyMeasurements (handleMessage env (Some message) w) = latencyMeasurements w \<and>
     cache (handleMessage env (Some message) w) = cache w \<and>
     callbacks (handleMessage env (Some message) w) = callbacks w \<and>
     frames (handleMessage env (Some message) w) = frames w"
  using invalid_when_field_missing [of message]
  by (auto simp: handleMessage_def console_warn_def)

lemmas ws_eval =
  connected_client_def scenario_config_def scenario_ws_env_def all_handlers_def new_client_def
  connect_def deliver_def on_open_def on_error_def handleClose_def handleMessage_def
  processMessage_def isValidMessage_def violationId_def invalidateQueries_def setQueryData_def
  recordLatency_def attemptReconnect_def reconnect_failed_def resolve_def reject_def
  connection_timeout_fires_def reconnect_timer_fires_def heartbeat_fires_def
  startHeartbeat_def stopHeartbeat_def clearReconnectTimer_def setTimer_def clearTimer_def
  console_log_def console_warn_def console_error_def call_handler_def isConnected_def
  buildWebSocketURL_def processMessageQueue.simps send_def Let_def string_of_nat.simps

text \<open>The message \<open>{invalid: 'message'}\<close> on a connected client.\<close>

theorem invalid_message_is_dropped_witness:
  "jfield invalid_message ''type'' = None \<and>
   messagesReceived (ws_metrics (handleMessage scenario_ws_env (Some invalid_message)
      (connected_client (Some 0)))) = 0 \<and>
   cache (handleMessage scenario_ws_env (Some invalid_message) (connected_client (Some 0))) = [] \<and>
   callbacks (handleMessage scenario_ws_env (Some invalid_message) (connected_client (Some 0))) =
     [CalledOnConnect] \<and>
   console (handleMessage scenario_ws_env (Some invalid_message) (connected_client (Some 0))) =
     [ConsoleLog ''Strathon WebSocket connected'',
      ConsoleWarn ''Invalid WebSocket message received:'' invalid_message]"
proof -
  have m: "jfield invalid_message ''type'' = None" by (simp add: invalid_message_def)
  have c: "messagesReceived (ws_metrics (connected_client (Some 0))) = 0"
    "cache (connected_client (Some 0)) = []"
    "callbacks (connected_client (Some 0)) = [CalledOnConnect]"
    "console (connected_client (Some 0)) = [ConsoleLog ''Strathon WebSocket connected'']"
    by (simp_all add: ws_eval)
  show ?thesis
    using invalid_message_is_dropped [of invalid_message scenario_ws_env "connected_client (Some 0)"] m c
    by simp
qed


subsection \<open>The cache bridge\<close>

lemma processMessage_security_alert:
  "jfield message ''type'' = Some (JStr ''security_alert'') \<Longrightarrow>
     processMessage env message w =
       (case queryClient w of
          None \<Rightarrow> w
        | Some qc \<Rightarrow>
            w\<lparr> cache := cache w @
                 InvalidateQueries qc [JStr ''pulse'', JStr ''violations''] #
                 (if truthy (violationId message)
                  then [SetQueryData qc [JStr ''pulse'', JStr ''violations'', the (violationId message)]
                          (the (jfield message ''data''))]
                  else []) \<rparr>)"
  by (simp add: processMessage_def invalidateQueries_def setQueryData_def Let_def split: option.splits)

text \<open>Without a query client no message reaches a cache.\<close>

lemma handleMessage_without_query_client:
  assumes "queryClient w = None"
  shows "cache (handleMessage env parsed w) = cache w"
proof (cases parsed)
  case None
  then show ?thesis by (simp add: handleMessage_def console_error_def)
next
  case (Some message)
  define w1 where "w1 =
    (case jfield message ''timestamp'' of
       Some (JStr (ch # chs)) \<Rightarrow>
         recordLatency (map_option (\<lambda>messageTime. int (now w) - messageTime)
                          (parseDate env (ch # chs))) w
     | _ \<Rightarrow> w)"
  define w2 where "w2 = w1\<lparr> ws_metrics := (ws_metrics w1)
       \<lparr> messagesReceived := Suc (messagesReceived (ws_metrics w1)), lastMessageTime := now w \<rparr> \<rparr>"
  have w1: "cache w1 = cache w" "queryClient w1 = queryClient w"
    by (simp_all add: w1_def recordLatency_def Let_def split: option.splits json.splits list.splits)
  have "processMessage env message w2 = w2"
    using w1 assms by (simp add: processMessage_def w2_def)
  then have "handleMessage env (Some message) w =
      (if \<not> isValidMessage message
       then console_warn ''Invalid WebSocket message received:'' message w
       else call_handler (onMessage (eventHandlers w2)) (CalledOnMessage message) w2)"
    by (simp add: handleMessage_def Let_def w1_def w2_def)
  then show ?thesis
    using Some w1 by (simp add: console_warn_def call_handler_def w2_def)
qed

text \<open>
  The query client held: \<open>connect\<close> stores its argument unless the client is connected,
  and no handler of a socket or of a timer changes it.
\<close>

lemma queryClient_attemptReconnect [simp]: "queryClient (attemptReconnect w) = queryClient w"
  by (simp add: attemptReconnect_def Let_def setTimer_def call_handler_def console_log_def)

lemma queryClient_reconnect_failed [simp]: "queryClient (reconnect_failed w) = queryClient w"
  by (simp add: reconnect_failed_def Let_def console_error_def)

lemma queryClient_reject [simp]: "queryClient (reject p err w) = queryClient w"
  by (simp add: reject_def Let_def)

lemma queryClient_resolve [simp]: "queryClient (resolve p w) = queryClient w"
  by (simp add: resolve_def)

lemma queryClient_stopHeartbeat [simp]: "queryClient (stopHeartbeat w) = queryClient w"
  by (simp add: stopHeartbeat_def clearTimer_def split: option.splits)

lemma queryClient_send [simp]: "queryClient (snd (send env message w)) = queryClient w"
  by (simp add: send_def Let_def console_error_def split: option.splits)

lemma queryClient_processMessageQueue [simp]:
  "queryClient (processMessageQueue env w) = queryClient w"
proof (induction env w rule: processMessageQueue.induct)
  case (1 env w)
  show ?case
  proof (cases "messageQueue w")
    case Nil
    then show ?thesis by (simp add: processMessageQueue.simps [of env w])
  next
    case (Cons message rest)
    then show ?thesis
      using 1 [of message rest] by (simp add: processMessageQueue.simps [of env w])
  qed
qed

lemma queryClient_processMessage [simp]: "queryClient (processMessage env message w) = queryClient w"
  by (simp add: processMessage_def invalidateQueries_def setQueryData_def Let_def split: option.splits)

lemma queryClient_handleMessage [simp]: "queryClient (handleMessage env parsed w) = queryClient w"
  by (simp add: handleMessage_def Let_def console_error_def console_warn_def call_handler_def
      recordLatency_def split: option.splits json.splits list.splits)

lemma queryClient_handleClose [simp]: "queryClient (handleClose code reason w) = queryClient w"
  by (simp add: handleClose_def Let_def call_handler_def console_log_def)

lemma queryClient_connect:
  "queryClient (snd (connect env qc from_reconnect w)) =
     (if ws w \<noteq> None \<and> state w = Connected then queryClient w else qc)"
  by (simp add: connect_def Let_def setTimer_def)

lemma queryClient_on_open [simp]: "queryClient (on_open env k w) = queryClient w"
  by (simp add: on_open_def Let_def startHeartbeat_def setTimer_def call_handler_def console_log_def)

lemma queryClient_on_error [simp]: "queryClient (on_error k w) = queryClient w"
  by (simp add: on_error_def Let_def call_handler_def console_error_def)

lemma queryClient_timers [simp]:
  "queryClient (connection_timeout_fires p w) = queryClient w"
  "queryClient (reconnect_timer_fires env w) = queryClient w"
  "queryClient (heartbeat_fires env w) = queryClient w"
  "queryClient (clearTimer tid w) = queryClient w"
  by (simp_all add: connection_timeout_fires_def reconnect_timer_fires_def heartbeat_fires_def
      clearTimer_def queryClient_connect Let_def split: option.splits)

lemma queryClient_deliver: "queryClient (deliver env t ev w) = queryClient w"
  by (simp add: deliver_def Let_def split: ws_event.splits list.splits timer_kind.splits)

text \<open>The cache actions of a valid message of type \<open>security_alert\<close>.\<close>

lemma handleMessage_security_alert:
  "isValidMessage message \<and> jfield message ''type'' = Some (JStr ''security_alert'') \<longrightarrow>
     cache (handleMessage env (Some message) w) =
       cache w @
       (case queryClient w of
          None \<Rightarrow> []
        | Some qc \<Rightarrow>
            InvalidateQueries qc [JStr ''pulse'', JStr ''violations''] #
            (if truthy (violationId message)
             then [SetQueryData qc [JStr ''pulse'', JStr ''violations'', the (violationId message)]
                     (the (jfield message ''data''))]
             else []))"
proof
  assume a: "isValidMessage message \<and> jfield message ''type'' = Some (JStr ''security_alert'')"
  define w1 where "w1 =
    (case jfield message ''timestamp'' of
       Some (JStr (ch # chs)) \<Rightarrow>
         recordLatency (map_option (\<lambda>messageTime. int (now w) - messageTime)
                          (parseDate env (ch # chs))) w
     | _ \<Rightarrow> w)"
  define w2 where "w2 = w1\<lparr> ws_metrics := (ws_metrics w1)
       \<lparr> messagesReceived := Suc (messagesReceived (ws_metrics w1)), lastMessageTime := now w \<rparr> \<rparr>"
  have w1: "cache w1 = cache w" "queryClient w1 = queryClient w"
    by (simp_all add: w1_def recordLatency_def Let_def split: option.splits json.splits list.splits)
  have hm: "handleMessage env (Some message) w =
      call_handler (onMessage (eventHandlers (processMessage env message w2)))
        (CalledOnMessage message) (processMessage env message w2)"
    using a by (simp add: handleMessage_def Let_def w1_def w2_def)
  have "cache (handleMessage env (Some message) w) = cache (processMessage env message w2)"
    unfolding hm by (simp add: call_handler_def)
  also have "\<dots> = cache w2 @
       (case queryClient w2 of
          None \<Rightarrow> []
        | Some qc \<Rightarrow>
            InvalidateQueries qc [JStr ''pulse'', JStr ''violations''] #
            (if truthy (violationId message)
             then [SetQueryData qc [JStr ''pulse'', JStr ''violations'', the (violationId message)]
                     (the (jfield message ''data''))]
             else []))"
    using a by (simp add: processMessage_security_alert split: option.splits)
  finally show "cache (handleMessage env (Some message) w) =
       cache w @
       (case queryClient w of
          None \<Rightarrow> []
        | Some qc \<Rightarrow>
            InvalidateQueries qc [JStr ''pulse'', JStr ''violations''] #
            (if truthy (violationId message)
             then [SetQueryData qc [JStr ''pulse'', JStr ''violations'', the (violationId message)]
                     (the (jfield message ''data''))]
             else []))"
    using w1 by (simp add: w2_def)
qed

text \<open>
  C9, as the code has it. For a valid message of type \<open>security_alert\<close> everything
  depends on the query client that the client holds. With one, the client
  invalidates the key \<open>['pulse', 'violations']\<close> and then, when \<open>data.violationId\<close> is
  truthy (present, and not \<open>null\<close>, \<open>false\<close>, 0 or the empty string), sets the entry
  \<open>['pulse', 'violations', data.violationId]\<close> to \<open>data\<close>. Without one, it does nothing to
  any cache, whatever the message. The query client held is the argument of the last
  \<open>connect\<close> made while the client was not connected: \<open>connect\<close> on a connected client
  ignores its argument, and no event of a socket or of a timer changes the query client.
\<close>

theorem security_alert_cache_actions:
  "(isValidMessage message \<and> jfield message ''type'' = Some (JStr ''security_alert'') \<longrightarrow>
     cache (handleMessage env (Some message) w) =
       cache w @
       (case queryClient w of
          None \<Rightarrow> []
        | Some qc \<Rightarrow>
            InvalidateQueries qc [JStr ''pulse'', JStr ''violations''] #
            (if truthy (violationId message)
             then [SetQueryData qc [JStr ''pulse'', JStr ''violations'', the (violationId message)]
                     (the (jfield message ''data''))]
             else []))) \<and>
   (queryClient w = None \<longrightarrow> cache (handleMessage env parsed w) = cache w) \<and>
   queryClient (snd (connect env given from_reconnect w)) =
     (if ws w \<noteq> None \<and> state w = Connected then queryClient w else given) \<and>
   queryClient (deliver env t ev w) = queryClient w"
  using handleMessage_security_alert [of message env w]
    handleMessage_without_query_client [of w env parsed]
    queryClient_connect [of env given from_reconnect w] queryClient_deliver [of env t ev w]
  by blast

text \<open>
  The alert with \<open>data.violationId = 'v-1'\<close> on a client connected with a query client,
  and on a client connected without one, on which a second \<open>connect\<close>, with a query client,
  has changed nothing.
\<close>

theorem security_alert_cache_actions_witness:
  "isValidMessage security_alert \<and>
   queryClient (connected_client (Some 0)) = Some 0 \<and>
   cache (handleMessage scenario_ws_env (Some security_alert) (connected_client (Some 0))) =
     [InvalidateQueries 0 [JStr ''pulse'', JStr ''violations''],
      SetQueryData 0 [JStr ''pulse'', JStr ''violations'', JStr ''v-1'']
        (JObj [(''violationId'', JStr ''v-1''), (''severity'', JStr ''high'')])] \<and>
   queryClient (snd (connect scenario_ws_env (Some 7) False (connected_client None))) = None \<and>
   cache (handleMessage scenario_ws_env (Some security_alert)
     (snd (connect scenario_ws_env (Some 7) False (connected_client None)))) = []"
proof -
  have m: "isValidMessage security_alert" "jfield security_alert ''type'' = Some (JStr ''security_alert'')"
    "violationId security_alert = Some (JStr ''v-1'')"
    "jfield security_alert ''data'' =
       Some (JObj [(''violationId'', JStr ''v-1''), (''severity'', JStr ''high'')])"
    by (simp_all add: security_alert_def isValidMessage_def violationId_def)
  have c: "queryClient (connected_client (Some 0)) = Some 0" "cache (connected_client (Some 0)) = []"
    by (simp_all add: ws_eval)
  have n: "queryClient (connected_client None) = None" "cache (connected_client None) = []"
    "ws (connected_client None) \<noteq> None \<and> state (connected_client None) = Connected"
    by (simp_all add: ws_eval)
  have a: "cache (handleMessage scenario_ws_env (Some security_alert) (connected_client (Some 0))) =
     [InvalidateQueries 0 [JStr ''pulse'', JStr ''violations''],
      SetQueryData 0 [JStr ''pulse'', JStr ''violations'', JStr ''v-1'']
        (JObj [(''violationId'', JStr ''v-1''), (''severity'', JStr ''high'')])]"
    using security_alert_cache_actions [of security_alert scenario_ws_env "connected_client (Some 0)"] m c
    by simp
  note t = security_alert_cache_actions
    [of security_alert scenario_ws_env "connected_client None" "Some security_alert" "Some 7" False]
  have s: "snd (connect scenario_ws_env (Some 7) False (connected_client None)) = connected_client None"
    using n(3) by (simp add: connect_def)
  have q: "queryClient (snd (connect scenario_ws_env (Some 7) False (connected_client None))) = None"
    using t n by simp
  have "cache (handleMessage scenario_ws_env (Some security_alert) (connected_client None)) = []"
    using t n by simp
  then show ?thesis using m(1) c(1) a q unfolding s by simp
qed

text \<open>
  The same alert on a client connected by \<open>connect()\<close> without a query client: the message
  is valid and is counted, and no cache action is performed.
\<close>

theorem security_alert_without_query_client:
  "isValidMessage security_alert \<and>
   violationId security_alert = Some (JStr ''v-1'') \<and>
   state (connected_client None) = Connected \<and>
   messagesReceived (ws_metrics (handleMessage scenario_ws_env (Some security_alert)
      (connected_client None))) = 1 \<and>
   cache (handleMessage scenario_ws_env (Some security_alert) (connected_client None)) = []"
  by (simp add: ws_eval security_alert_def)

subsection \<open>Connecting\<close>

text \<open>
  C10. \<open>connect\<close> on a client that holds a socket and is in the state \<open>Connected\<close>
  returns a promise that is resolved at once and leaves the client and its surroundings
  as they were: no socket is made, no timer is set, and the state, the metrics, the
  reconnect counter and the outbound queue are unchanged. The query client passed to
  such a call is ignored.
\<close>

theorem connect_when_connected_changes_nothing:
  "ws w \<noteq> None \<and> state w = Connected \<longrightarrow>
     connect env qc from_reconnect w = (ResolvedAtOnce, w) \<and>
     sockets (snd (connect env qc from_reconnect w)) = sockets w \<and>
     state (snd (connect env qc from_reconnect w)) = Connected \<and>
     ws_metrics (snd (connect env qc from_reconnect w)) = ws_metrics w \<and>
     reconnectAttempts (snd (connect env qc from_reconnect w)) = reconnectAttempts w \<and>
     messageQueue (snd (connect env qc from_reconnect w)) = messageQueue w \<and>
     timers (snd (connect env qc from_reconnect w)) = timers w \<and>
     promises (snd (connect env qc from_reconnect w)) = promises w"
  by (simp add: connect_def)

text \<open>A second \<open>connect\<close>, with another query client, on the connected client.\<close>

theorem connect_when_connected_changes_nothing_witness:
  "ws (connected_client (Some 0)) = Some 0 \<and> state (connected_client (Some 0)) = Connected \<and>
   connect scenario_ws_env (Some 1) False (connected_client (Some 0)) =
     (ResolvedAtOnce, connected_client (Some 0)) \<and>
   length (sockets (snd (connect scenario_ws_env (Some 1) False (connected_client (Some 0))))) = 1"
proof -
  have c: "ws (connected_client (Some 0)) = Some 0" "state (connected_client (Some 0)) = Connected"
    "length (sockets (connected_client (Some 0))) = 1"
    by (simp_all add: ws_eval)
  show ?thesis
    using connect_when_connected_changes_nothing
      [of "connected_client (Some 0)" scenario_ws_env "Some 1" False] c
    by simp
qed


subsection \<open>Closing and reconnecting\<close>

lemma stopHeartbeat_keeps:
  "state (stopHeartbeat w) = state w" "reconnectAttempts (stopHeartbeat w) = reconnectAttempts w"
  "timersMade (stopHeartbeat w) = timersMade w" "ws_config (stopHeartbeat w) = ws_config w"
  "eventHandlers (stopHeartbeat w) = eventHandlers w"
  by (simp_all add: stopHeartbeat_def clearTimer_def split: option.splits)

lemma handleClose_before_reconnect:
  "handleClose code reason w =
     (let w3 = call_handler (onDisconnect (eventHandlers w)) (CalledOnDisconnect reason)
                 (stopHeartbeat
                    ((console_log (''WebSocket closed: '' @ string_of_nat code @ '' - '' @ reason) w)
                       \<lparr> state := Disconnected \<rparr>))
      in if code \<noteq> 1000 \<and> reconnectAttempts w < cfg_reconnectAttempts (ws_config w)
         then attemptReconnect w3 else w3)"
  by (simp add: handleClose_def Let_def stopHeartbeat_keeps call_handler_def console_log_def)

lemma before_reconnect_fields:
  assumes "w3 = call_handler present (CalledOnDisconnect reason)
                 (stopHeartbeat ((console_log s w)\<lparr> state := Disconnected \<rparr>))"
  shows "state w3 = Disconnected" "reconnectAttempts w3 = reconnectAttempts w"
    "timersMade w3 = timersMade w" "timers w3 = timers (stopHeartbeat w)"
    "ws_config w3 = ws_config w"
  by (simp_all add: assms call_handler_def stopHeartbeat_def clearTimer_def console_log_def
      split: option.splits)

lemma attemptReconnect_schedules:
  "state w \<noteq> Reconnecting \<Longrightarrow>
     timers (attemptReconnect w) =
       timers w @ [\<lparr> timer_id = Suc (timersMade w), timer_what = ReconnectTimeout,
                     timer_delay = cfg_reconnectDelay (ws_config w) * 2 ^ min (reconnectAttempts w) 5 \<rparr>] \<and>
     timersMade (attemptReconnect w) = Suc (timersMade w) \<and>
     state (attemptReconnect w) = Reconnecting \<and>
     reconnectAttempts (attemptReconnect w) = Suc (reconnectAttempts w) \<and>
     reconnectTimer (attemptReconnect w) = Some (Suc (timersMade w))"
  by (simp add: attemptReconnect_def Let_def setTimer_def call_handler_def console_log_def)

text \<open>
  One call of \<open>handleClose\<close>. It stops the heartbeat and sets the state to
  \<open>Disconnected\<close>, whatever the state was. After a close with code 1000 it sets no
  timer. After a close with any other code it sets one reconnect timer, with the
  delay \<open>reconnectDelay * 2 ^ min k 5\<close> after \<open>k\<close> earlier attempts, and the state becomes
  \<open>Reconnecting\<close>, as long as fewer attempts than the configured maximum have been made;
  with the maximum reached it sets no timer and the state stays \<open>Disconnected\<close>. The
  state \<open>Failed\<close> is entered by the \<open>catch\<close> callback of a reconnect attempt, when the
  promise of its \<open>connect\<close> is rejected with the maximum reached; the callback sets no
  timer then.
\<close>

lemma handleClose_policy:
  "(timersMade (handleClose 1000 reason w) = timersMade w \<and>
    timers (handleClose 1000 reason w) = timers (stopHeartbeat w) \<and>
    state (handleClose 1000 reason w) = Disconnected \<and>
    reconnectAttempts (handleClose 1000 reason w) = reconnectAttempts w) \<and>
   (code \<noteq> 1000 \<and> reconnectAttempts w < cfg_reconnectAttempts (ws_config w) \<longrightarrow>
      timers (handleClose code reason w) =
        timers (stopHeartbeat w) @
          [\<lparr> timer_id = Suc (timersMade w), timer_what = ReconnectTimeout,
             timer_delay = cfg_reconnectDelay (ws_config w) * 2 ^ min (reconnectAttempts w) 5 \<rparr>] \<and>
      timersMade (handleClose code reason w) = Suc (timersMade w) \<and>
      state (handleClose code reason w) = Reconnecting \<and>
      reconnectAttempts (handleClose code reason w) = Suc (reconnectAttempts w) \<and>
      reconnectTimer (handleClose code reason w) = Some (Suc (timersMade w))) \<and>
   (code \<noteq> 1000 \<and> cfg_reconnectAttempts (ws_config w) \<le> reconnectAttempts w \<longrightarrow>
      timersMade (handleClose code reason w) = timersMade w \<and>
      timers (handleClose code reason w) = timers (stopHeartbeat w) \<and>
      state (handleClose code reason w) = Disconnected \<and>
      reconnectAttempts (handleClose code reason w) = reconnectAttempts w) \<and>
   (cfg_reconnectAttempts (ws_config w) \<le> reconnectAttempts w \<longrightarrow>
      state (reconnect_failed w) = Failed \<and>
      timers (reconnect_failed w) = timers w \<and>
      timersMade (reconnect_failed w) = timersMade w \<and>
      reconnectAttempts (reconnect_failed w) = reconnectAttempts w)"
proof (intro conjI impI)
  show "timersMade (handleClose 1000 reason w) = timersMade w"
    "timers (handleClose 1000 reason w) = timers (stopHeartbeat w)"
    "state (handleClose 1000 reason w) = Disconnected"
    "reconnectAttempts (handleClose 1000 reason w) = reconnectAttempts w"
    by (simp_all add: handleClose_before_reconnect before_reconnect_fields [OF refl])
next
  assume a: "code \<noteq> 1000 \<and> reconnectAttempts w < cfg_reconnectAttempts (ws_config w)"
  let ?w3 = "call_handler (onDisconnect (eventHandlers w)) (CalledOnDisconnect reason)
                 (stopHeartbeat
                    ((console_log (''WebSocket closed: '' @ string_of_nat code @ '' - '' @ reason) w)
                       \<lparr> state := Disconnected \<rparr>))"
  have hc: "handleClose code reason w = attemptReconnect ?w3"
    using a by (simp add: handleClose_before_reconnect)
  have "state ?w3 \<noteq> Reconnecting" by (simp add: before_reconnect_fields [OF refl])
  note s = attemptReconnect_schedules [OF this]
  show "timers (handleClose code reason w) =
        timers (stopHeartbeat w) @
          [\<lparr> timer_id = Suc (timersMade w), timer_what = ReconnectTimeout,
             timer_delay = cfg_reconnectDelay (ws_config w) * 2 ^ min (reconnectAttempts w) 5 \<rparr>]"
    "timersMade (handleClose code reason w) = Suc (timersMade w)"
    "state (handleClose code reason w) = Reconnecting"
    "reconnectAttempts (handleClose code reason w) = Suc (reconnectAttempts w)"
    "reconnectTimer (handleClose code reason w) = Some (Suc (timersMade w))"
    unfolding hc using s by (simp_all add: before_reconnect_fields [OF refl])
next
  assume a: "code \<noteq> 1000 \<and> cfg_reconnectAttempts (ws_config w) \<le> reconnectAttempts w"
  then show "timersMade (handleClose code reason w) = timersMade w"
    "timers (handleClose code reason w) = timers (stopHeartbeat w)"
    "state (handleClose code reason w) = Disconnected"
    "reconnectAttempts (handleClose code reason w) = reconnectAttempts w"
    by (simp_all add: handleClose_before_reconnect before_reconnect_fields [OF refl])
next
  assume a: "cfg_reconnectAttempts (ws_config w) \<le> reconnectAttempts w"
  then show "state (reconnect_failed w) = Failed" "timers (reconnect_failed w) = timers w"
    "timersMade (reconnect_failed w) = timersMade w"
    "reconnectAttempts (reconnect_failed w) = reconnectAttempts w"
    by (simp_all add: reconnect_failed_def console_error_def Let_def)
qed

lemmas trace_eval =
  ws_eval deliver_all.simps errors_only_def errors_then_closes_def three_attempts_client_def
  error_then_close_def

text \<open>
  Socket 0 closes with code 1006 and each of the two reconnect attempts ends in an error
  event alone, as in the test of the client that expects the state \<open>failed\<close>: the client
  ends in the state \<open>Failed\<close>, two attempts made, and the only pending timers are the
  connection timeouts.
\<close>

lemma errors_alone_end_in_failed:
  "summary (deliver_all scenario_ws_env errors_only (connected_client (Some 0))) =
     (Failed, 2, [ConnectionTimeout 0, ConnectionTimeout 1, ConnectionTimeout 2])"
  by (simp add: summary_def trace_eval)

text \<open>
  C8. The claim: a close with another code than 1000 schedules one reconnect attempt per
  backoff cycle up to the configured maximum, after which the client enters the terminal
  state \<open>Failed\<close>. On the code, with a maximum of two attempts: socket 0 closes with code
  1006, and the socket of each reconnect attempt raises its error event and then its
  close event, as a socket that fails to connect does. After the error event of the
  second attempt the client is in the state \<open>Failed\<close>; the close event of the same
  socket then runs \<open>handleClose\<close>, which sets the state to \<open>Disconnected\<close>. The client
  ends in the state \<open>Disconnected\<close>, both attempts made and no reconnect timer pending.
\<close>

theorem close_after_exhaustion_leaves_disconnected:
  "summary (deliver_all scenario_ws_env errors_then_closes (connected_client (Some 0))) =
     (Disconnected, 2, [ConnectionTimeout 0, ConnectionTimeout 1, ConnectionTimeout 2]) \<and>
   cfg_reconnectAttempts scenario_config = 2 \<and>
   state (deliver_all scenario_ws_env (butlast errors_then_closes) (connected_client (Some 0))) = Failed"
  by (simp add: summary_def trace_eval)

text \<open>
  The same reset of the state lets one failed socket schedule two reconnections. With a
  maximum of three attempts: the error event of socket 1 schedules the second attempt
  through the \<open>catch\<close> callback, and its close event, having set the state to
  \<open>Disconnected\<close>, passes the guard of \<open>attemptReconnect\<close> and schedules the third. Two
  reconnect timers are pending and the counter stands at three.
\<close>

lemma error_then_close_schedules_two_reconnects:
  "summary (deliver_all scenario_ws_env (butlast error_then_close) three_attempts_client) =
     (Reconnecting, 2, [ConnectionTimeout 0, ConnectionTimeout 1, ReconnectTimeout]) \<and>
   summary (deliver_all scenario_ws_env error_then_close three_attempts_client) =
     (Reconnecting, 3, [ConnectionTimeout 0, ConnectionTimeout 1, ReconnectTimeout, ReconnectTimeout])"
  by (simp add: summary_def trace_eval)


end
